theory Spec2Isabelle
  imports Main "HOL-Library.Sublist"
begin

section \<open>Values, exceptions and observable events\<close>

text \<open>
  The controller of \<^verbatim>\<open>pylib/controller.py\<close> receives JSON-like payloads from the
  view and gets JSON-like values back from the OpenRazer backend. A value is one of
  Python's \<^verbatim>\<open>None\<close>, a \<^verbatim>\<open>bool\<close>, an \<^verbatim>\<open>int\<close>, a \<^verbatim>\<open>str\<close>, a \<^verbatim>\<open>list\<close> or a
  \<^verbatim>\<open>dict\<close> with string keys (an association list whose keys are distinct, in
  insertion order). Floats are left out.
\<close>

datatype pyval =
    PNone
  | PBool bool
  | PInt int
  | PStr string
  | PList "pyval list"
  | PDict "(string \<times> pyval) list"

text \<open>Instances of Python's \<^verbatim>\<open>Exception\<close>; the last one is any exception a backend raises.\<close>

datatype exc =
    KeyError pyval
  | TypeError
  | ValueError
  | IndexError
  | BackendException string

text \<open>
  Text handed to the logger or to the webview. \<^verbatim>\<open>str(v)\<close> and \<^verbatim>\<open>json.dumps(v)\<close> of a
  value are builtins of Python and are kept as they are applied: \<open>StrOf v\<close> and
  \<open>JsonOf v\<close>. A text is the concatenation of its pieces.
\<close>

datatype piece = Lit string | StrOf pyval | JsonOf pyval

datatype level = dbg_debug | dbg_action | dbg_success | dbg_warning | dbg_error

text \<open>The calls of the OpenRazer backend module, with their arguments.\<close>

datatype bcall =
    get_device_list
  | get_device pyval
  | set_device_state_call pyval pyval pyval pyval pyval
  | set_device_colours pyval pyval pyval
  | debug_matrix_call pyval pyval pyval
  | troubleshoot

text \<open>
  Everything the controller does to the outside, in order: a line for
  \<^verbatim>\<open>dbg.stdout\<close> (message, level, optional verbosity), a script for
  \<^verbatim>\<open>webview.run_js\<close>, a variable for \<^verbatim>\<open>send_view_variable\<close>, a call of the backend,
  a page for \<^verbatim>\<open>webbrowser.open\<close>.
\<close>

datatype event =
    Stdout "piece list" level "nat option"
  | Run_js "piece list"
  | Send_view_variable string pyval
  | Openrazer bcall
  | Webbrowser_open string

record 's world =
  trace :: "event list"
  bstate :: 's

text \<open>
  The collaborators that are not part of the controller: the translation table
  \<^verbatim>\<open>locales.LOCALES\<close>, \<^verbatim>\<open>common.get_exception_as_string\<close>, Python's \<^verbatim>\<open>int\<close> on a
  \<^verbatim>\<open>str\<close> (\<open>None\<close> is its \<^verbatim>\<open>ValueError\<close>), and the backend: a call returns a value
  or raises, and may change the daemon's state.
\<close>

record 's env =
  LOCALES :: "string \<Rightarrow> string option"
  get_exception_as_string :: "exc \<Rightarrow> string"
  int_of_str :: "string \<Rightarrow> int option"
  openrazer :: "bcall \<Rightarrow> 's \<Rightarrow> (exc + pyval) \<times> 's"

section \<open>Computations that log, call out and may raise\<close>

type_synonym ('s, 'a) m = "'s world \<Rightarrow> (exc + 'a) \<times> 's world"

definition ret :: "'a \<Rightarrow> ('s, 'a) m" where
  "ret x = (\<lambda>w. (Inr x, w))"

definition raise :: "exc \<Rightarrow> ('s, 'a) m" where
  "raise e = (\<lambda>w. (Inl e, w))"

definition bnd :: "('s, 'a) m \<Rightarrow> ('a \<Rightarrow> ('s, 'b) m) \<Rightarrow> ('s, 'b) m" where
  "bnd c f = (\<lambda>w. case c w of (Inl e, w') \<Rightarrow> (Inl e, w') | (Inr x, w') \<Rightarrow> f x w')"

definition try_except :: "('s, 'a) m \<Rightarrow> (exc \<Rightarrow> ('s, 'a) m) \<Rightarrow> ('s, 'a) m" where
  "try_except c h = (\<lambda>w. case c w of (Inl e, w') \<Rightarrow> h e w' | (Inr x, w') \<Rightarrow> (Inr x, w'))"

definition lift :: "exc + 'a \<Rightarrow> ('s, 'a) m" where
  "lift r = (case r of Inl e \<Rightarrow> raise e | Inr x \<Rightarrow> ret x)"

definition emit :: "event \<Rightarrow> ('s, unit) m" where
  "emit ev = (\<lambda>w. (Inr (), w\<lparr>trace := trace w @ [ev]\<rparr>))"

definition stdout :: "piece list \<Rightarrow> level \<Rightarrow> nat option \<Rightarrow> ('s, unit) m" where
  "stdout msg lvl verbosity = emit (Stdout msg lvl verbosity)"

definition backend :: "'s env \<Rightarrow> bcall \<Rightarrow> ('s, pyval) m" where
  "backend e c = (\<lambda>w. case openrazer e c (bstate w) of
      (r, s') \<Rightarrow> (r, w\<lparr>trace := trace w @ [Openrazer c], bstate := s'\<rparr>))"

fun for_each :: "('a \<Rightarrow> ('s, unit) m) \<Rightarrow> 'a list \<Rightarrow> ('s, unit) m" where
  "for_each body [] = ret ()"
| "for_each body (x # xs) = bnd (body x) (\<lambda>_. for_each body xs)"

section \<open>The operations of Python the controller uses\<close>

text \<open>\<^verbatim>\<open>d[k]\<close> on a dict with string keys: an unhashable key is a TypeError.\<close>

fun dict_getitem :: "(string \<times> pyval) list \<Rightarrow> pyval \<Rightarrow> exc + pyval" where
  "dict_getitem kvs (PStr k) =
     (case map_of kvs k of None \<Rightarrow> Inl (KeyError (PStr k)) | Some v \<Rightarrow> Inr v)"
| "dict_getitem kvs (PList xs) = Inl TypeError"
| "dict_getitem kvs (PDict d) = Inl TypeError"
| "dict_getitem kvs k = Inl (KeyError k)"

text \<open>\<^verbatim>\<open>xs[i]\<close> on a sequence: a negative index counts from the end.\<close>

definition seq_getitem :: "'a list \<Rightarrow> int \<Rightarrow> exc + 'a" where
  "seq_getitem xs i =
     (if 0 \<le> i \<and> i < int (length xs) then Inr (xs ! nat i)
      else if i < 0 \<and> - int (length xs) \<le> i then Inr (xs ! nat (int (length xs) + i))
      else Inl IndexError)"

definition int_of_bool :: "bool \<Rightarrow> int" where
  "int_of_bool b = (if b then 1 else 0)"

definition str_items :: "string \<Rightarrow> pyval list" where
  "str_items s = map (\<lambda>c. PStr [c]) s"

fun py_getitem :: "pyval \<Rightarrow> pyval \<Rightarrow> exc + pyval" where
  "py_getitem (PDict kvs) k = dict_getitem kvs k"
| "py_getitem (PList xs) (PInt i) = seq_getitem xs i"
| "py_getitem (PList xs) (PBool b) = seq_getitem xs (int_of_bool b)"
| "py_getitem (PStr s) (PInt i) = seq_getitem (str_items s) i"
| "py_getitem (PStr s) (PBool b) = seq_getitem (str_items s) (int_of_bool b)"
| "py_getitem v k = Inl TypeError"

text \<open>What a \<^verbatim>\<open>for\<close> loop visits: the items of a list, the keys of a dict, the
  characters of a str; anything else is not iterable.\<close>

fun py_iter :: "pyval \<Rightarrow> exc + pyval list" where
  "py_iter (PList xs) = Inr xs"
| "py_iter (PDict kvs) = Inr (map (\<lambda>kv. PStr (fst kv)) kvs)"
| "py_iter (PStr s) = Inr (str_items s)"
| "py_iter v = Inl TypeError"

fun py_int :: "'s env \<Rightarrow> pyval \<Rightarrow> exc + int" where
  "py_int e (PInt i) = Inr i"
| "py_int e (PBool b) = Inr (int_of_bool b)"
| "py_int e (PStr s) = (case int_of_str e s of None \<Rightarrow> Inl ValueError | Some i \<Rightarrow> Inr i)"
| "py_int e v = Inl TypeError"

text \<open>
  The comparisons of the source: \<^verbatim>\<open>v == None\<close>, \<^verbatim>\<open>v == False\<close> and \<^verbatim>\<open>v == True\<close>
  (a bool is an int in Python, so \<^verbatim>\<open>0 == False\<close> and \<^verbatim>\<open>1 == True\<close>), \<^verbatim>\<open>v == "..."\<close>,
  \<^verbatim>\<open>type(v) == str\<close>, and \<^verbatim>\<open>v == str\<close>: the right operand of the last one is the class
  \<^verbatim>\<open>str\<close> itself, which no value equals.
\<close>

definition eq_None :: "pyval \<Rightarrow> bool" where
  "eq_None v = (v = PNone)"

fun eq_bool :: "pyval \<Rightarrow> bool \<Rightarrow> bool" where
  "eq_bool (PBool a) b = (a = b)"
| "eq_bool (PInt i) b = (i = int_of_bool b)"
| "eq_bool v b = False"

definition eq_str :: "pyval \<Rightarrow> string \<Rightarrow> bool" where
  "eq_str v s = (v = PStr s)"

fun type_is_str :: "pyval \<Rightarrow> bool" where
  "type_is_str (PStr s) = True"
| "type_is_str v = False"

definition eq_str_class :: "pyval \<Rightarrow> bool" where
  "eq_str_class v = False"

fun the_str :: "pyval \<Rightarrow> string" where
  "the_str (PStr s) = s"
| "the_str v = []"

definition locales_getitem :: "'s env \<Rightarrow> string \<Rightarrow> ('s, string) m" where
  "locales_getitem e k =
     (case LOCALES e k of None \<Rightarrow> raise (KeyError (PStr k)) | Some v \<Rightarrow> ret v)"

section \<open>The controller\<close>

text \<open>\<^verbatim>\<open>run_function(function, data={})\<close>: the script is
  \<^verbatim>\<open>"{0}({1});".format(function, json.dumps(data))\<close>.\<close>

definition run_function :: "pyval \<Rightarrow> pyval \<Rightarrow> ('s, unit) m" where
  "run_function function data = emit (Run_js [StrOf function, Lit ''('', JsonOf data, Lit '');''])"

text \<open>\<^verbatim>\<open>reason.replace("\n", "<br>")\<close>.\<close>

definition replace_newline :: "string \<Rightarrow> string" where
  "replace_newline s = concat (map (\<lambda>c. if c = CHR 0x0A then ''<br>'' else [c]) s)"

text \<open>The script of \<^verbatim>\<open>_internal_error\<close>:
  \<^verbatim>\<open>open_dialog(`{0}`, `{1}`, '{2}', [['OK', '']], '40em', '80em')\<close>.\<close>

definition open_dialog :: "string \<Rightarrow> string \<Rightarrow> string \<Rightarrow> string" where
  "open_dialog title message style =
     ''open_dialog(`'' @ title @ ''`, `'' @ message @ ''`, '' @ [CHR 0x27] @ style @ [CHR 0x27] @
     '', [['OK', '' @ [CHR 0x27, CHR 0x27] @ '']], '40em', '80em')''"

definition internal_error :: "string \<Rightarrow> string \<Rightarrow> string \<Rightarrow> ('s, unit) m" where
  "internal_error title reason style =
     emit (Run_js [Lit (open_dialog title (replace_newline reason) style)])"

definition update_device_list :: "'s env \<Rightarrow> pyval \<Rightarrow> ('s, unit) m" where
  "update_device_list e data =
     bnd (backend e get_device_list) (\<lambda>devices.
     bnd (emit (Send_view_variable ''CACHE_DEVICES'' devices)) (\<lambda>_.
     bnd (lift (py_getitem data (PStr ''callback''))) (\<lambda>callback.
     run_function callback (PDict []))))"

definition open_device :: "'s env \<Rightarrow> pyval \<Rightarrow> ('s, unit) m" where
  "open_device e data =
     bnd (lift (py_getitem data (PStr ''uid''))) (\<lambda>uid.
     bnd (backend e (get_device uid)) (\<lambda>data.
       if eq_None data then run_function (PStr ''open_device_overview'') (PDict [])
       else if eq_str_class data then
         run_function (PStr ''_open_device_error'')
           (PDict [(''code'', PInt (- 2)), (''exception'', data)])
       else run_function (PStr ''_open_device'') data))"

definition effect_params :: "(string \<times> pyval) list" where
  "effect_params =
     [(''spectrum'', PNone), (''wave'', PInt 1), (''reactive'', PInt 2),
      (''breath_single'', PNone), (''static'', PNone)]"

text \<open>The body of the inner loop of \<^verbatim>\<open>_apply_to_all\<close>, for one zone of one device.\<close>

definition apply_to_zone :: "'s env \<Rightarrow> pyval \<Rightarrow> pyval \<Rightarrow> pyval \<Rightarrow> pyval \<Rightarrow> ('s, unit) m" where
  "apply_to_zone e request_type request_value device zone =
     (if eq_str request_type ''effect'' then
        bnd (lift (dict_getitem effect_params request_value)) (\<lambda>param.
        bnd (lift (py_getitem device (PStr ''uid''))) (\<lambda>uid.
        bnd (backend e (set_device_state_call uid request_value zone PNone (PList [param]))) (\<lambda>_.
        ret ())))
      else if eq_str request_type ''brightness'' then
        bnd (lift (py_getitem device (PStr ''uid''))) (\<lambda>uid.
        bnd (backend e (set_device_state_call uid (PStr ''brightness'') zone PNone
               (PList [request_value]))) (\<lambda>_.
        ret ()))
      else if eq_str request_type ''colour'' then
        bnd (lift (py_getitem device (PStr ''uid''))) (\<lambda>uid.
        bnd (backend e (set_device_colours uid zone (PList [request_value]))) (\<lambda>_.
        ret ()))
      else ret ())"

text \<open>The body of the outer loop: \<^verbatim>\<open>continue\<close> ends it for a device that is not available.\<close>

definition apply_to_device :: "'s env \<Rightarrow> pyval \<Rightarrow> pyval \<Rightarrow> pyval \<Rightarrow> ('s, unit) m" where
  "apply_to_device e request_type request_value device =
     bnd (lift (py_getitem device (PStr ''available''))) (\<lambda>available.
       if eq_bool available False then ret ()
       else
         bnd (lift (py_getitem device (PStr ''zones''))) (\<lambda>zones.
         bnd (lift (py_iter zones)) (\<lambda>zs.
         for_each (apply_to_zone e request_type request_value device) zs)))"

definition apply_to_all :: "'s env \<Rightarrow> pyval \<Rightarrow> ('s, unit) m" where
  "apply_to_all e data =
     bnd (lift (py_getitem data (PStr ''type''))) (\<lambda>request_type.
     bnd (lift (py_getitem data (PStr ''value''))) (\<lambda>request_value.
     bnd (backend e get_device_list) (\<lambda>devices.
     bnd (lift (py_iter devices)) (\<lambda>ds.
     for_each (apply_to_device e request_type request_value) ds))))"

text \<open>What \<^verbatim>\<open>_set_device_state\<close> does with the backend's answer.\<close>

definition set_device_state_result :: "'s env \<Rightarrow> pyval \<Rightarrow> ('s, unit) m" where
  "set_device_state_result e request =
     (if eq_None request then
        bnd (stdout [Lit ''Device not found in backend''] dbg_warning None) (\<lambda>_.
        bnd (locales_getitem e ''error_device_gone_title'') (\<lambda>title.
        bnd (locales_getitem e ''error_device_gone_text'') (\<lambda>reason.
        internal_error title reason ''warning'')))
      else if eq_bool request False then
        bnd (stdout [Lit ''Invalid request.''] dbg_warning None) (\<lambda>_.
        bnd (locales_getitem e ''error_bad_request_title'') (\<lambda>title.
        bnd (locales_getitem e ''error_bad_request_text'') (\<lambda>reason.
        internal_error title reason ''warning'')))
      else if type_is_str request then
        bnd (locales_getitem e ''error_backend_title'') (\<lambda>title.
        bnd (locales_getitem e ''error_backend_text'') (\<lambda>reason.
        bnd (internal_error title (reason @ ''<pre>'' @ the_str request @ ''</pre>'') ''serious'') (\<lambda>_.
        stdout [Lit (the_str request)] dbg_error None)))
      else if eq_bool request True then
        stdout [Lit ''Successfully executed request''] dbg_success (Some 1)
      else ret ())"

text \<open>The line \<^verbatim>\<open>"Processing request '{2}' for device {0} in backend '{1}'..."\<close>.\<close>

definition processing_request :: "int \<Rightarrow> pyval \<Rightarrow> pyval \<Rightarrow> piece list" where
  "processing_request uid backend_name backend_request =
     [Lit (''Processing request '' @ [CHR 0x27]), StrOf backend_request,
      Lit ([CHR 0x27] @ '' for device ''), StrOf (PInt uid),
      Lit ('' in backend '' @ [CHR 0x27]), StrOf backend_name, Lit ([CHR 0x27] @ ''...'')]"

definition set_device_state :: "'s env \<Rightarrow> pyval \<Rightarrow> ('s, unit) m" where
  "set_device_state e data =
     bnd (lift (py_getitem data (PStr ''uid''))) (\<lambda>uid0.
     bnd (lift (py_int e uid0)) (\<lambda>uid.
     bnd (lift (py_getitem data (PStr ''backend''))) (\<lambda>backend_name.
     bnd (lift (py_getitem data (PStr ''backend_request''))) (\<lambda>backend_request.
     bnd (lift (py_getitem data (PStr ''zone''))) (\<lambda>zone.
     bnd (lift (py_getitem data (PStr ''colour_hex''))) (\<lambda>colour_hex.
     bnd (lift (py_getitem data (PStr ''params''))) (\<lambda>params.
     bnd (stdout (processing_request uid backend_name backend_request) dbg_action (Some 1)) (\<lambda>_.
     bnd (backend e (set_device_state_call (PInt uid) backend_request zone colour_hex params))
       (set_device_state_result e)))))))))"

text \<open>What \<^verbatim>\<open>_debug_matrix\<close> does with the backend's answer.\<close>

definition debug_matrix_result :: "'s env \<Rightarrow> pyval \<Rightarrow> pyval \<Rightarrow> pyval \<Rightarrow> ('s, unit) m" where
  "debug_matrix_result e row column request =
     (if eq_None request then
        bnd (locales_getitem e ''error_device_gone_title'') (\<lambda>title.
        bnd (locales_getitem e ''error_device_gone_text'') (\<lambda>reason.
        internal_error title reason ''warning''))
      else if type_is_str request then
        bnd (locales_getitem e ''error_backend_title'') (\<lambda>title.
        bnd (locales_getitem e ''error_backend_text'') (\<lambda>reason.
        bnd (internal_error title (reason @ ''<pre>'' @ the_str request @ ''</pre>'') ''serious'') (\<lambda>_.
        stdout [Lit (the_str request)] dbg_error None)))
      else if eq_bool request True then
        stdout [Lit ''OK: ['', StrOf row, Lit '','', StrOf column, Lit '']''] dbg_success (Some 1)
      else ret ())"

definition debug_matrix :: "'s env \<Rightarrow> pyval \<Rightarrow> ('s, unit) m" where
  "debug_matrix e data =
     bnd (lift (py_getitem data (PStr ''uid''))) (\<lambda>uid0.
     bnd (lift (py_int e uid0)) (\<lambda>uid.
     bnd (lift (py_getitem data (PStr ''backend''))) (\<lambda>backend_name.
     bnd (lift (py_getitem data (PStr ''position''))) (\<lambda>position0.
     bnd (lift (py_getitem position0 (PInt 0))) (\<lambda>row.
     bnd (lift (py_getitem data (PStr ''position''))) (\<lambda>position1.
     bnd (lift (py_getitem position1 (PInt 1))) (\<lambda>column.
     bnd (lift (py_int e row)) (\<lambda>r.
     bnd (lift (py_int e column)) (\<lambda>c.
     bnd (backend e (debug_matrix_call (PInt uid) (PInt r) (PInt c)))
       (debug_matrix_result e row column))))))))))"

definition open_help :: "'s env \<Rightarrow> pyval \<Rightarrow> ('s, unit) m" where
  "open_help e data = emit (Webbrowser_open ''https://polychromatic.app/docs'')"

definition troubleshoot_openrazer :: "'s env \<Rightarrow> pyval \<Rightarrow> ('s, unit) m" where
  "troubleshoot_openrazer e data =
     try_except
       (bnd (stdout [Lit ''Running troubleshooter for OpenRazer...''] dbg_warning (Some 1)) (\<lambda>_.
        bnd (backend e troubleshoot) (\<lambda>results.
        bnd (run_function (PStr ''_show_troubleshoot_results'') results) (\<lambda>_.
        stdout [Lit ''Troubleshooting finished.''] dbg_success (Some 1)))))
       (\<lambda>ex.
        bnd (stdout [Lit ''Troubleshooting encountered an exception.''] dbg_error (Some 1)) (\<lambda>_.
        bnd (locales_getitem e ''troubleshoot'') (\<lambda>title.
        bnd (locales_getitem e ''troubleshoot_cannot_run'') (\<lambda>reason.
        internal_error title reason ''serious''))))"

text \<open>The dict \<^verbatim>\<open>requests\<close> of \<^verbatim>\<open>parse_request\<close>.\<close>

definition requests :: "'s env \<Rightarrow> (string \<times> (pyval \<Rightarrow> ('s, unit) m)) list" where
  "requests e =
     [(''update_device_list'', update_device_list e),
      (''open_device'', open_device e),
      (''apply_to_all'', apply_to_all e),
      (''set_device_state'', set_device_state e),
      (''debug_matrix'', debug_matrix e),
      (''open_help'', open_help e),
      (''troubleshoot_openrazer'', troubleshoot_openrazer e)]"

text \<open>\<^verbatim>\<open>requests[request]\<close>.\<close>

definition requests_getitem ::
  "(string \<times> (pyval \<Rightarrow> ('s, unit) m)) list \<Rightarrow> string \<Rightarrow> exc + (pyval \<Rightarrow> ('s, unit) m)" where
  "requests_getitem rs request =
     (case map_of rs request of None \<Rightarrow> Inl (KeyError (PStr request)) | Some h \<Rightarrow> Inr h)"

text \<open>What the \<^verbatim>\<open>except Exception\<close> of \<^verbatim>\<open>parse_request\<close> does with an exception.\<close>

definition failed_request :: "'s env \<Rightarrow> string \<Rightarrow> pyval \<Rightarrow> exc \<Rightarrow> ('s, pyval) m" where
  "failed_request e request data ex =
     bnd (stdout [Lit (''Failed to execute request: '' @ request @ '' with data: ''), StrOf data]
            dbg_error None) (\<lambda>_.
     bnd (stdout [Lit (get_exception_as_string e ex)] dbg_error None) (\<lambda>_.
     bnd (ret (get_exception_as_string e ex)) (\<lambda>traceback.
     bnd (locales_getitem e ''error_generic_title'') (\<lambda>title.
     bnd (locales_getitem e ''error_generic_text'') (\<lambda>reason.
     bnd (internal_error title (reason @ ''<br><br><code>'' @ traceback @ ''</code>'')
            ''serious'') (\<lambda>_.
     ret PNone))))))"

text \<open>
  \<^verbatim>\<open>parse_request(request, data)\<close>. The first \<^verbatim>\<open>try\<close> holds the dict literal only, and
  its \<^verbatim>\<open>except KeyError\<close> returns \<^verbatim>\<open>False\<close> (here \<open>Inl (PBool False)\<close>: the function is
  left); the second \<^verbatim>\<open>try\<close> holds the lookup and the call of the handler. The function
  returns \<^verbatim>\<open>None\<close> when it reaches its end.
\<close>

definition parse_request :: "'s env \<Rightarrow> string \<Rightarrow> pyval \<Rightarrow> ('s, pyval) m" where
  "parse_request e request data =
     bnd (try_except
            (bnd (ret (requests e)) (\<lambda>rs. ret (Inr rs)))
            (\<lambda>ex. case ex of
               KeyError k \<Rightarrow>
                 bnd (stdout [Lit (''Unknown Request: '' @ request @ '' with data: ''), StrOf data]
                        dbg_error None) (\<lambda>_.
                 bnd (internal_error ''Internal Error''
                        (''<code>'' @ request @ ''</code> is not implemented.'') ''serious'') (\<lambda>_.
                 ret (Inl (PBool False))))
             | _ \<Rightarrow> raise ex))
       (\<lambda>r. case r of
          Inl v \<Rightarrow> ret v
        | Inr rs \<Rightarrow>
            try_except
              (bnd (lift (requests_getitem rs request)) (\<lambda>handler.
               bnd (handler data) (\<lambda>_. ret PNone)))
              (failed_request e request data))"

section \<open>Device lists\<close>

text \<open>
  A device of the backend's list, as \<^verbatim>\<open>_apply_to_all\<close> reads it: \<^verbatim>\<open>device["available"]\<close>,
  \<^verbatim>\<open>device["zones"]\<close> (something a \<^verbatim>\<open>for\<close> loop can visit) and \<^verbatim>\<open>device["uid"]\<close>.
  \<open>device_ok\<close> says that the three are there; \<open>device_available\<close> says that the
  loop does not skip the device, that is, \<^verbatim>\<open>device["available"] == False\<close> is false (for
  a flag that is a bool: the flag is \<^verbatim>\<open>True\<close>).
\<close>

definition device_ok :: "pyval \<Rightarrow> bool" where
  "device_ok d =
     (case py_getitem d (PStr ''available'') of Inl _ \<Rightarrow> False | Inr _ \<Rightarrow>
      (case py_getitem d (PStr ''zones'') of Inl _ \<Rightarrow> False | Inr zones \<Rightarrow>
       (case py_iter zones of Inl _ \<Rightarrow> False | Inr _ \<Rightarrow>
        (case py_getitem d (PStr ''uid'') of Inl _ \<Rightarrow> False | Inr _ \<Rightarrow> True))))"

definition device_available :: "pyval \<Rightarrow> bool" where
  "device_available d =
     (case py_getitem d (PStr ''available'') of Inl _ \<Rightarrow> False | Inr a \<Rightarrow> \<not> eq_bool a False)"

definition device_zones :: "pyval \<Rightarrow> pyval list" where
  "device_zones d =
     (case py_getitem d (PStr ''zones'') of Inl _ \<Rightarrow> [] | Inr zones \<Rightarrow>
      (case py_iter zones of Inl _ \<Rightarrow> [] | Inr zs \<Rightarrow> zs))"

definition device_uid :: "pyval \<Rightarrow> pyval" where
  "device_uid d = (case py_getitem d (PStr ''uid'') of Inl _ \<Rightarrow> PNone | Inr u \<Rightarrow> u)"

text \<open>The zones the two loops visit, each with the uid of its device, in order.\<close>

definition visited_zones :: "pyval list \<Rightarrow> (pyval \<times> pyval) list" where
  "visited_zones ds =
     concat (map (\<lambda>d. map (\<lambda>z. (device_uid d, z)) (device_zones d)) (filter device_available ds))"

section \<open>A sample environment\<close>

text \<open>
  An environment to run the controller in: a translation table with the keys the
  controller reads, a traceback that names the exception, \<^verbatim>\<open>int\<close> on plain decimal
  numerals (Python's also takes a sign, blanks around the numeral and underscores between
  digits), and a backend that counts its calls, answers \<^verbatim>\<open>get_device_list\<close> with the
  list it is given and every other call with the answer it is given.
\<close>

definition demo_locales :: "string \<Rightarrow> string option" where
  "demo_locales = map_of
     [(''error_generic_title'', ''Error''),
      (''error_generic_text'', ''Something went wrong.''),
      (''error_device_gone_title'', ''Device gone''),
      (''error_device_gone_text'', ''The device is no longer there.''),
      (''error_bad_request_title'', ''Bad request''),
      (''error_bad_request_text'', ''The request was not valid.''),
      (''error_backend_title'', ''Backend error''),
      (''error_backend_text'', ''The daemon said:''),
      (''troubleshoot'', ''Troubleshoot''),
      (''troubleshoot_cannot_run'', ''The troubleshooter could not run.'')]"

fun demo_traceback :: "exc \<Rightarrow> string" where
  "demo_traceback (KeyError k) = ''KeyError''"
| "demo_traceback TypeError = ''TypeError''"
| "demo_traceback ValueError = ''ValueError''"
| "demo_traceback IndexError = ''IndexError''"
| "demo_traceback (BackendException s) = s"

definition decimal :: "string \<Rightarrow> int option" where
  "decimal s =
     (if s \<noteq> [] \<and> list_all (\<lambda>c. c \<in> set ''0123456789'') s
      then Some (foldl (\<lambda>n c. 10 * n + (int (of_char c) - 48)) 0 s) else None)"

definition demo_backend :: "pyval \<Rightarrow> pyval \<Rightarrow> bcall \<Rightarrow> exc + pyval" where
  "demo_backend devices answer c = (case c of get_device_list \<Rightarrow> Inr devices | _ \<Rightarrow> Inr answer)"

definition demo_env :: "pyval \<Rightarrow> pyval \<Rightarrow> nat env" where
  "demo_env devices answer =
     \<lparr>LOCALES = demo_locales, get_exception_as_string = demo_traceback, int_of_str = decimal,
      openrazer = (\<lambda>c s. (demo_backend devices answer c, Suc s))\<rparr>"

definition demo_world :: "nat world" where
  "demo_world = \<lparr>trace = [], bstate = 0\<rparr>"

text \<open>Two devices: a mouse with two zones, and a keyboard that is not available.\<close>

definition demo_devices :: "pyval list" where
  "demo_devices =
     [PDict [(''uid'', PInt 0), (''available'', PBool True),
             (''zones'', PList [PStr ''logo'', PStr ''scroll''])],
      PDict [(''uid'', PInt 1), (''available'', PBool False),
             (''zones'', PList [PStr ''main''])]]"

definition demo_state_request :: pyval where
  "demo_state_request =
     PDict [(''uid'', PStr ''0''), (''backend'', PStr ''openrazer''),
            (''backend_request'', PStr ''wave''), (''zone'', PStr ''logo''),
            (''colour_hex'', PList [PStr ''#00FF00'']), (''params'', PList [PInt 1])]"

definition demo_matrix_request :: pyval where
  "demo_matrix_request =
     PDict [(''uid'', PStr ''0''), (''backend'', PStr ''openrazer''),
            (''position'', PList [PInt 2, PInt 3])]"

text \<open>
  The same environment with a traceback of two lines, and one whose backend raises on
  every call.
\<close>

definition demo_traceback_env :: "nat env" where
  "demo_traceback_env =
     (demo_env (PList demo_devices) PNone)
       \<lparr>get_exception_as_string := (\<lambda>ex. ''Traceback:'' @ [CHR 0x0A] @ demo_traceback ex)\<rparr>"

definition demo_failing_env :: "nat env" where
  "demo_failing_env =
     (demo_env (PList demo_devices) PNone)
       \<lparr>openrazer := (\<lambda>c s. (Inl (BackendException ''daemon down''), Suc s))\<rparr>"

section \<open>Dialogs\<close>

text \<open>
  The scripts \<^verbatim>\<open>_internal_error\<close> gives the view are the ones of a single literal piece
  (\<^verbatim>\<open>run_function\<close> gives four pieces): \<open>dialogs\<close> are the dialogs a world has seen.
\<close>

fun is_dialog :: "event \<Rightarrow> bool" where
  "is_dialog (Run_js [Lit s]) = True"
| "is_dialog ev = False"

definition dialogs :: "'s world \<Rightarrow> event list" where
  "dialogs w = filter is_dialog (trace w)"

section \<open>Running a computation\<close>

lemma ret_apply: "ret x w = (Inr x, w)"
  by (simp add: ret_def)

lemma raise_apply: "raise ex w = (Inl ex, w)"
  by (simp add: raise_def)

lemma bnd_apply:
  "bnd c f w = (case c w of (Inl ex, w') \<Rightarrow> (Inl ex, w') | (Inr x, w') \<Rightarrow> f x w')"
  by (simp add: bnd_def)

lemma try_except_apply:
  "try_except c h w = (case c w of (Inl ex, w') \<Rightarrow> h ex w' | (Inr x, w') \<Rightarrow> (Inr x, w'))"
  by (simp add: try_except_def)

lemma lift_apply: "lift r w = (case r of Inl ex \<Rightarrow> (Inl ex, w) | Inr x \<Rightarrow> (Inr x, w))"
  by (simp add: lift_def ret_def raise_def split: sum.splits)

lemma emit_apply: "emit ev w = (Inr (), w\<lparr>trace := trace w @ [ev]\<rparr>)"
  by (simp add: emit_def)

lemma stdout_apply:
  "stdout msg lvl v w = (Inr (), w\<lparr>trace := trace w @ [Stdout msg lvl v]\<rparr>)"
  by (simp add: stdout_def emit_def)

lemma internal_error_apply:
  "internal_error title reason style w =
     (Inr (), w\<lparr>trace := trace w @
        [Run_js [Lit (open_dialog title (replace_newline reason) style)]]\<rparr>)"
  by (simp add: internal_error_def emit_def)

lemma run_function_apply:
  "run_function f d w =
     (Inr (), w\<lparr>trace := trace w @ [Run_js [StrOf f, Lit ''('', JsonOf d, Lit '');'']]\<rparr>)"
  by (simp add: run_function_def emit_def)

lemma backend_apply:
  "backend e c w =
     (fst (openrazer e c (bstate w)),
      w\<lparr>trace := trace w @ [Openrazer c], bstate := snd (openrazer e c (bstate w))\<rparr>)"
  by (simp add: backend_def split: prod.splits)

lemma locales_getitem_apply:
  "locales_getitem e k w =
     (case LOCALES e k of None \<Rightarrow> (Inl (KeyError (PStr k)), w) | Some v \<Rightarrow> (Inr v, w))"
  by (simp add: locales_getitem_def ret_def raise_def split: option.splits)

lemmas run = ret_apply raise_apply bnd_apply try_except_apply lift_apply emit_apply stdout_apply
  internal_error_apply run_function_apply backend_apply locales_getitem_apply

lemmas demo = demo_env_def demo_backend_def demo_world_def demo_locales_def demo_devices_def
  demo_state_request_def demo_matrix_request_def decimal_def

lemma replace_newline_append:
  "replace_newline (a @ b) = replace_newline a @ replace_newline b"
  by (simp add: replace_newline_def)

lemma replace_newline_id: "CHR 0x0A \<notin> set s \<Longrightarrow> replace_newline s = s"
  by (induction s) (auto simp: replace_newline_def)

section \<open>The router\<close>

lemma parse_request_apply:
  "parse_request e request data w =
     (case map_of (requests e) request of
        None \<Rightarrow> failed_request e request data (KeyError (PStr request)) w
      | Some handler \<Rightarrow>
          (case handler data w of
             (Inl ex, w') \<Rightarrow> failed_request e request data ex w'
           | (Inr u, w') \<Rightarrow> (Inr PNone, w')))"
  by (simp add: parse_request_def requests_getitem_def ret_apply bnd_apply try_except_apply
      lift_apply split: option.splits sum.splits prod.splits)

lemma failed_request_apply:
  assumes "LOCALES e ''error_generic_title'' = Some title"
      and "LOCALES e ''error_generic_text'' = Some reason"
  shows "failed_request e request data ex w =
     (Inr PNone, w\<lparr>trace := trace w @
        [Stdout [Lit (''Failed to execute request: '' @ request @ '' with data: ''), StrOf data]
           dbg_error None,
         Stdout [Lit (get_exception_as_string e ex)] dbg_error None,
         Run_js [Lit (open_dialog title
            (replace_newline
               (reason @ ''<br><br><code>'' @ get_exception_as_string e ex @ ''</code>''))
            ''serious'')]]\<rparr>)"
  using assms by (simp add: failed_request_def run)

lemma apply_to_all_in_requests: "map_of (requests e) ''apply_to_all'' = Some (apply_to_all e)"
  by (simp add: requests_def)

section \<open>Setting the state of a device\<close>

text \<open>
  C7. When the backend's state-mutation call returns \<^verbatim>\<open>False\<close>, \<^verbatim>\<open>_set_device_state\<close>
  ends normally and what it does is: the line "Processing request ...", the call of the
  backend, the line "Invalid request." at warning level, and the dialog with the "bad
  request" title and text of the translation table, of style warning. Nothing else: no
  line of success, and no other script for the view. The payload has the six fields the
  handler reads, with a uid that \<^verbatim>\<open>int\<close> accepts, and the translation table has the two
  keys.
\<close>

theorem set_device_state_false:
  assumes "py_getitem data (PStr ''uid'') = Inr uid_raw"
      and "py_int e uid_raw = Inr uid"
      and "py_getitem data (PStr ''backend'') = Inr backend_name"
      and "py_getitem data (PStr ''backend_request'') = Inr backend_request"
      and "py_getitem data (PStr ''zone'') = Inr zone"
      and "py_getitem data (PStr ''colour_hex'') = Inr colour_hex"
      and "py_getitem data (PStr ''params'') = Inr params"
      and "openrazer e (set_device_state_call (PInt uid) backend_request zone colour_hex params)
             (bstate w) = (Inr (PBool False), after)"
      and "LOCALES e ''error_bad_request_title'' = Some title"
      and "LOCALES e ''error_bad_request_text'' = Some reason"
  shows "set_device_state e data w =
     (Inr (), w\<lparr>trace := trace w @
        [Stdout (processing_request uid backend_name backend_request) dbg_action (Some 1),
         Openrazer (set_device_state_call (PInt uid) backend_request zone colour_hex params),
         Stdout [Lit ''Invalid request.''] dbg_warning None,
         Run_js [Lit (open_dialog title (replace_newline reason) ''warning'')]],
        bstate := after\<rparr>)"
  using assms by (simp add: set_device_state_def set_device_state_result_def run eq_None_def)

theorem set_device_state_false_witness:
  "set_device_state (demo_env (PList demo_devices) (PBool False)) demo_state_request demo_world =
     (Inr (), \<lparr>trace =
        [Stdout (processing_request 0 (PStr ''openrazer'') (PStr ''wave'')) dbg_action (Some 1),
         Openrazer (set_device_state_call (PInt 0) (PStr ''wave'') (PStr ''logo'')
                      (PList [PStr ''#00FF00'']) (PList [PInt 1])),
         Stdout [Lit ''Invalid request.''] dbg_warning None,
         Run_js [Lit (open_dialog ''Bad request'' ''The request was not valid.'' ''warning'')]],
        bstate = 1\<rparr>)"
  using set_device_state_false [where data = demo_state_request
      and e = "demo_env (PList demo_devices) (PBool False)" and w = demo_world
      and uid_raw = "PStr ''0''" and uid = 0 and backend_name = "PStr ''openrazer''"
      and backend_request = "PStr ''wave''" and zone = "PStr ''logo''"
      and colour_hex = "PList [PStr ''#00FF00'']" and params = "PList [PInt 1]" and after = 1
      and title = "''Bad request''" and reason = "''The request was not valid.''"]
  by (simp add: demo replace_newline_def)

lemma replace_newline_pre:
  "replace_newline (reason @ ''<pre>'' @ message @ ''</pre>'') =
     replace_newline reason @ ''<pre>'' @ replace_newline message @ ''</pre>''"
  by (simp add: replace_newline_def)

text \<open>
  C8, as it is written, fails. The claim says that the message of the dialog contains
  exactly the string the backend returned. For a string of two lines the handler gives the
  view a dialog whose script does not contain that string: \<^verbatim>\<open>_internal_error\<close> has
  replaced the newline by \<^verbatim>\<open><br>\<close>.
\<close>

theorem set_device_state_string_counterexample:
  "set_device_state (demo_env (PList demo_devices) (PStr ''a\<newline>b'')) demo_state_request demo_world =
     (Inr (), \<lparr>trace =
        [Stdout (processing_request 0 (PStr ''openrazer'') (PStr ''wave'')) dbg_action (Some 1),
         Openrazer (set_device_state_call (PInt 0) (PStr ''wave'') (PStr ''logo'')
                      (PList [PStr ''#00FF00'']) (PList [PInt 1])),
         Run_js [Lit (open_dialog ''Backend error'' ''The daemon said:<pre>a<br>b</pre>''
                        ''serious'')],
         Stdout [Lit ''a\<newline>b''] dbg_error None],
        bstate = 1\<rparr>) \<and>
   \<not> sublist ''a\<newline>b''
       (open_dialog ''Backend error'' ''The daemon said:<pre>a<br>b</pre>'' ''serious'')"
proof
  show "\<not> sublist ''a\<newline>b''
       (open_dialog ''Backend error'' ''The daemon said:<pre>a<br>b</pre>'' ''serious'')"
    by code_simp
next
  show "set_device_state (demo_env (PList demo_devices) (PStr ''a\<newline>b'')) demo_state_request demo_world =
     (Inr (), \<lparr>trace =
        [Stdout (processing_request 0 (PStr ''openrazer'') (PStr ''wave'')) dbg_action (Some 1),
         Openrazer (set_device_state_call (PInt 0) (PStr ''wave'') (PStr ''logo'')
                      (PList [PStr ''#00FF00'']) (PList [PInt 1])),
         Run_js [Lit (open_dialog ''Backend error'' ''The daemon said:<pre>a<br>b</pre>''
                        ''serious'')],
         Stdout [Lit ''a\<newline>b''] dbg_error None],
        bstate = 1\<rparr>)"
    by (simp add: set_device_state_def set_device_state_result_def run eq_None_def demo
        replace_newline_def)
qed

text \<open>
  C8. When the backend's state-mutation call returns a string, \<^verbatim>\<open>_set_device_state\<close> ends
  normally and the only script it gives the view is one dialog of style serious, with the
  "backend" title of the translation table; the rest is the line "Processing request ...",
  the call of the backend, and the string itself on the log at error level. The message of
  the dialog is the "backend" text followed by the string between \<^verbatim>\<open><pre>\<close> and
  \<^verbatim>\<open></pre>\<close>, after \<^verbatim>\<open>_internal_error\<close> has replaced every newline of it by \<^verbatim>\<open><br>\<close>: the
  message holds the string exactly when the string has no newline.
\<close>

theorem set_device_state_string:
  assumes "py_getitem data (PStr ''uid'') = Inr uid_raw"
      and "py_int e uid_raw = Inr uid"
      and "py_getitem data (PStr ''backend'') = Inr backend_name"
      and "py_getitem data (PStr ''backend_request'') = Inr backend_request"
      and "py_getitem data (PStr ''zone'') = Inr zone"
      and "py_getitem data (PStr ''colour_hex'') = Inr colour_hex"
      and "py_getitem data (PStr ''params'') = Inr params"
      and "openrazer e (set_device_state_call (PInt uid) backend_request zone colour_hex params)
             (bstate w) = (Inr (PStr message), after)"
      and "LOCALES e ''error_backend_title'' = Some title"
      and "LOCALES e ''error_backend_text'' = Some reason"
  shows "set_device_state e data w =
     (Inr (), w\<lparr>trace := trace w @
        [Stdout (processing_request uid backend_name backend_request) dbg_action (Some 1),
         Openrazer (set_device_state_call (PInt uid) backend_request zone colour_hex params),
         Run_js [Lit (open_dialog title
            (replace_newline reason @ ''<pre>'' @ replace_newline message @ ''</pre>'')
            ''serious'')],
         Stdout [Lit message] dbg_error None],
        bstate := after\<rparr>) \<and>
     (CHR 0x0A \<notin> set message \<longrightarrow> replace_newline message = message)"
  using assms
  by (simp add: set_device_state_def set_device_state_result_def run eq_None_def
      replace_newline_pre replace_newline_id del: append.simps)

theorem set_device_state_string_witness:
  "set_device_state (demo_env (PList demo_devices) (PStr ''no such effect'')) demo_state_request
     demo_world =
     (Inr (), \<lparr>trace =
        [Stdout (processing_request 0 (PStr ''openrazer'') (PStr ''wave'')) dbg_action (Some 1),
         Openrazer (set_device_state_call (PInt 0) (PStr ''wave'') (PStr ''logo'')
                      (PList [PStr ''#00FF00'']) (PList [PInt 1])),
         Run_js [Lit (open_dialog ''Backend error''
                        ''The daemon said:<pre>no such effect</pre>'' ''serious'')],
         Stdout [Lit ''no such effect''] dbg_error None],
        bstate = 1\<rparr>) \<and>
   replace_newline ''no such effect'' = ''no such effect''"
  using set_device_state_string [where data = demo_state_request
      and e = "demo_env (PList demo_devices) (PStr ''no such effect'')" and w = demo_world
      and uid_raw = "PStr ''0''" and uid = 0 and backend_name = "PStr ''openrazer''"
      and backend_request = "PStr ''wave''" and zone = "PStr ''logo''"
      and colour_hex = "PList [PStr ''#00FF00'']" and params = "PList [PInt 1]" and after = 1
      and title = "''Backend error''" and reason = "''The daemon said:''"
      and message = "''no such effect''"]
  by (simp add: demo replace_newline_def)

text \<open>
  C10. \<^verbatim>\<open>_set_device_state\<close> compares the backend's answer with \<^verbatim>\<open>==\<close> before it looks at
  its type: an answer of the integer 0 gives the line "Invalid request." and the "bad
  request" warning dialog, an answer of the integer 1 gives the line of success only, and
  what the handler does with 0 and with 1 is what it does with \<^verbatim>\<open>False\<close> and with \<^verbatim>\<open>True\<close>.
\<close>

theorem set_device_state_by_equality:
  assumes "py_getitem data (PStr ''uid'') = Inr uid_raw"
      and "py_int e uid_raw = Inr uid"
      and "py_getitem data (PStr ''backend'') = Inr backend_name"
      and "py_getitem data (PStr ''backend_request'') = Inr backend_request"
      and "py_getitem data (PStr ''zone'') = Inr zone"
      and "py_getitem data (PStr ''colour_hex'') = Inr colour_hex"
      and "py_getitem data (PStr ''params'') = Inr params"
      and "openrazer e (set_device_state_call (PInt uid) backend_request zone colour_hex params)
             (bstate w) = (Inr (PInt i), after)"
      and "i = 0 \<or> i = 1"
      and "LOCALES e ''error_bad_request_title'' = Some title"
      and "LOCALES e ''error_bad_request_text'' = Some reason"
  shows "set_device_state e data w =
     (Inr (), w\<lparr>trace := trace w @
        [Stdout (processing_request uid backend_name backend_request) dbg_action (Some 1),
         Openrazer (set_device_state_call (PInt uid) backend_request zone colour_hex params)] @
        (if i = 0
         then [Stdout [Lit ''Invalid request.''] dbg_warning None,
               Run_js [Lit (open_dialog title (replace_newline reason) ''warning'')]]
         else [Stdout [Lit ''Successfully executed request''] dbg_success (Some 1)]),
        bstate := after\<rparr>) \<and>
     set_device_state_result e (PInt 0) = set_device_state_result e (PBool False) \<and>
     set_device_state_result e (PInt 1) = set_device_state_result e (PBool True)"
  using assms
  by (auto simp add: set_device_state_def set_device_state_result_def run eq_None_def
      int_of_bool_def)

theorem set_device_state_by_equality_witness:
  "set_device_state (demo_env (PList demo_devices) (PInt 0)) demo_state_request demo_world =
     (Inr (), \<lparr>trace =
        [Stdout (processing_request 0 (PStr ''openrazer'') (PStr ''wave'')) dbg_action (Some 1),
         Openrazer (set_device_state_call (PInt 0) (PStr ''wave'') (PStr ''logo'')
                      (PList [PStr ''#00FF00'']) (PList [PInt 1])),
         Stdout [Lit ''Invalid request.''] dbg_warning None,
         Run_js [Lit (open_dialog ''Bad request'' ''The request was not valid.'' ''warning'')]],
        bstate = 1\<rparr>) \<and>
   set_device_state (demo_env (PList demo_devices) (PInt 1)) demo_state_request demo_world =
     (Inr (), \<lparr>trace =
        [Stdout (processing_request 0 (PStr ''openrazer'') (PStr ''wave'')) dbg_action (Some 1),
         Openrazer (set_device_state_call (PInt 0) (PStr ''wave'') (PStr ''logo'')
                      (PList [PStr ''#00FF00'']) (PList [PInt 1])),
         Stdout [Lit ''Successfully executed request''] dbg_success (Some 1)],
        bstate = 1\<rparr>)"
  using set_device_state_by_equality [where data = demo_state_request
      and e = "demo_env (PList demo_devices) (PInt 0)" and w = demo_world
      and uid_raw = "PStr ''0''" and uid = 0 and backend_name = "PStr ''openrazer''"
      and backend_request = "PStr ''wave''" and zone = "PStr ''logo''"
      and colour_hex = "PList [PStr ''#00FF00'']" and params = "PList [PInt 1]" and after = 1
      and title = "''Bad request''" and reason = "''The request was not valid.''" and i = 0]
    set_device_state_by_equality [where data = demo_state_request
      and e = "demo_env (PList demo_devices) (PInt 1)" and w = demo_world
      and uid_raw = "PStr ''0''" and uid = 0 and backend_name = "PStr ''openrazer''"
      and backend_request = "PStr ''wave''" and zone = "PStr ''logo''"
      and colour_hex = "PList [PStr ''#00FF00'']" and params = "PList [PInt 1]" and after = 1
      and title = "''Bad request''" and reason = "''The request was not valid.''" and i = 1]
  by (simp add: demo replace_newline_def)

section \<open>Handlers that fail give the view no dialog\<close>

lemma for_each_dialogs:
  assumes "\<And>x w. x \<in> set xs \<Longrightarrow> dialogs (snd (body x w)) = dialogs w"
  shows "dialogs (snd (for_each body xs w)) = dialogs w"
  using assms
proof (induction xs arbitrary: w)
  case Nil
  then show ?case by (simp add: ret_apply)
next
  case (Cons x xs)
  obtain r w' where b: "body x w = (r, w')" by (cases "body x w")
  with Cons.prems [of x w] have d: "dialogs w' = dialogs w" by simp
  show ?case
  proof (cases r)
    case (Inl ex)
    with b d show ?thesis by (simp add: bnd_apply)
  next
    case (Inr u)
    have "dialogs (snd (for_each body xs w')) = dialogs w'"
      by (rule Cons.IH) (simp add: Cons.prems)
    with b d Inr show ?thesis by (simp add: bnd_apply)
  qed
qed

lemma apply_to_zone_dialogs: "dialogs (snd (apply_to_zone e rt rv d z w)) = dialogs w"
  by (simp add: apply_to_zone_def run dialogs_def split: sum.splits prod.splits)

lemma apply_to_device_dialogs: "dialogs (snd (apply_to_device e rt rv d w)) = dialogs w"
  by (simp add: apply_to_device_def run for_each_dialogs apply_to_zone_dialogs
      split: sum.splits prod.splits)

lemma apply_to_all_dialogs: "dialogs (snd (apply_to_all e data w)) = dialogs w"
proof -
  have "dialogs (snd (for_each (apply_to_device e rt rv) ds w')) = dialogs w'" for rt rv ds w'
    by (rule for_each_dialogs) (rule apply_to_device_dialogs)
  moreover have "dialogs (w\<lparr>trace := trace w @ [Openrazer c], bstate := s\<rparr>) = dialogs w" for c s
    by (simp add: dialogs_def)
  ultimately show ?thesis
    by (simp add: apply_to_all_def run split: sum.splits prod.splits)
qed

lemma update_device_list_dialogs: "dialogs (snd (update_device_list e data w)) = dialogs w"
  by (simp add: update_device_list_def run dialogs_def split: sum.splits prod.splits)

lemma open_device_dialogs: "dialogs (snd (open_device e data w)) = dialogs w"
  by (simp add: open_device_def run dialogs_def split: sum.splits prod.splits)

lemma bnd_fails_quiet:
  assumes "fst (bnd c f w) = Inl ex"
      and c: "\<And>w. dialogs (snd (c w)) = dialogs w"
      and f: "\<And>x w ex. fst (f x w) = Inl ex \<Longrightarrow> dialogs (snd (f x w)) = dialogs w"
  shows "dialogs (snd (bnd c f w)) = dialogs w"
proof (cases "c w")
  case (Pair r w')
  from c [of w] Pair have d: "dialogs w' = dialogs w" by simp
  show ?thesis
  proof (cases r)
    case (Inl ex')
    with Pair d show ?thesis by (simp add: bnd_apply)
  next
    case (Inr x)
    with Pair assms(1) have "fst (f x w') = Inl ex" by (simp add: bnd_apply)
    then have "dialogs (snd (f x w')) = dialogs w'" by (rule f)
    with Pair Inr d show ?thesis by (simp add: bnd_apply)
  qed
qed

lemma lift_quiet: "dialogs (snd (lift r w)) = dialogs w"
  by (simp add: lift_apply split: sum.splits)

lemma stdout_quiet: "dialogs (snd (stdout msg lvl v w)) = dialogs w"
  by (simp add: stdout_apply dialogs_def)

lemma backend_quiet: "dialogs (snd (backend e c w)) = dialogs w"
  by (simp add: backend_apply dialogs_def)

lemma locales_getitem_quiet: "dialogs (snd (locales_getitem e k w)) = dialogs w"
  by (simp add: locales_getitem_apply split: option.splits)

lemma run_function_quiet: "dialogs (snd (run_function f d w)) = dialogs w"
  by (simp add: run_function_apply dialogs_def)

lemmas quiet = lift_quiet stdout_quiet backend_quiet locales_getitem_quiet run_function_quiet

lemma shows_dialog:
  assumes "fst (bnd (locales_getitem e k) (\<lambda>title. bnd (locales_getitem e k') (\<lambda>reason.
             internal_error title (g reason) style)) w) = Inl ex"
  shows "dialogs (snd (bnd (locales_getitem e k) (\<lambda>title. bnd (locales_getitem e k') (\<lambda>reason.
             internal_error title (g reason) style)) w)) = dialogs w"
  using assms by (simp add: run split: option.splits)

lemma shows_dialog_then_logs:
  assumes "fst (bnd (locales_getitem e k) (\<lambda>title. bnd (locales_getitem e k') (\<lambda>reason.
             bnd (internal_error title (g reason) style) (\<lambda>_. stdout msg lvl v))) w) = Inl ex"
  shows "dialogs (snd (bnd (locales_getitem e k) (\<lambda>title. bnd (locales_getitem e k') (\<lambda>reason.
             bnd (internal_error title (g reason) style) (\<lambda>_. stdout msg lvl v))) w)) = dialogs w"
  using assms by (simp add: run split: option.splits)

lemma set_device_state_result_dialogs:
  assumes "fst (set_device_state_result e r w) = Inl ex"
  shows "dialogs (snd (set_device_state_result e r w)) = dialogs w"
proof -
  consider (gone) "eq_None r" | (bad) "\<not> eq_None r" "eq_bool r False"
    | (str) "\<not> eq_None r" "\<not> eq_bool r False" "type_is_str r"
    | (rest) "\<not> eq_None r" "\<not> eq_bool r False" "\<not> type_is_str r"
    by blast
  then show ?thesis
  proof cases
    case gone
    with assms show ?thesis
      by (simp add: set_device_state_result_def) (rule bnd_fails_quiet, assumption, rule quiet, rule shows_dialog)
  next
    case bad
    with assms show ?thesis
      by (simp add: set_device_state_result_def) (rule bnd_fails_quiet, assumption, rule quiet, rule shows_dialog)
  next
    case str
    with assms show ?thesis
      by (simp add: set_device_state_result_def) (rule shows_dialog_then_logs)
  next
    case rest
    with assms show ?thesis
      by (simp add: set_device_state_result_def ret_apply stdout_apply split: if_splits)
  qed
qed

lemma set_device_state_dialogs:
  assumes "fst (set_device_state e data w) = Inl ex"
  shows "dialogs (snd (set_device_state e data w)) = dialogs w"
  using assms unfolding set_device_state_def
  apply -
  apply (erule bnd_fails_quiet, rule quiet)+
  apply (erule set_device_state_result_dialogs)
  done

lemma debug_matrix_result_dialogs:
  assumes "fst (debug_matrix_result e row column r w) = Inl ex"
  shows "dialogs (snd (debug_matrix_result e row column r w)) = dialogs w"
proof -
  consider (gone) "eq_None r" | (str) "\<not> eq_None r" "type_is_str r"
    | (rest) "\<not> eq_None r" "\<not> type_is_str r"
    by blast
  then show ?thesis
  proof cases
    case gone
    with assms show ?thesis
      by (simp add: debug_matrix_result_def) (rule shows_dialog)
  next
    case str
    with assms show ?thesis
      by (simp add: debug_matrix_result_def) (rule shows_dialog_then_logs)
  next
    case rest
    with assms show ?thesis
      by (simp add: debug_matrix_result_def ret_apply stdout_apply split: if_splits)
  qed
qed

lemma debug_matrix_dialogs:
  assumes "fst (debug_matrix e data w) = Inl ex"
  shows "dialogs (snd (debug_matrix e data w)) = dialogs w"
  using assms unfolding debug_matrix_def
  apply -
  apply (erule bnd_fails_quiet, rule quiet)+
  apply (erule debug_matrix_result_dialogs)
  done

lemma open_help_returns: "fst (open_help e data w) = Inr ()"
  by (simp add: open_help_def run)

lemma troubleshoot_openrazer_dialogs:
  assumes "fst (troubleshoot_openrazer e data w) = Inl ex"
  shows "dialogs (snd (troubleshoot_openrazer e data w)) = dialogs w"
proof -
  let ?c = "bnd (stdout [Lit ''Running troubleshooter for OpenRazer...''] dbg_warning (Some 1)) (\<lambda>_.
        bnd (backend e troubleshoot) (\<lambda>results.
        bnd (run_function (PStr ''_show_troubleshoot_results'') results) (\<lambda>_.
        stdout [Lit ''Troubleshooting finished.''] dbg_success (Some 1))))"
  have q: "dialogs (snd (?c w)) = dialogs w"
    by (simp add: run dialogs_def split: sum.splits)
  obtain r w' where c: "?c w = (r, w')" by (cases "?c w")
  with q have d: "dialogs w' = dialogs w" by simp
  show ?thesis
  proof (cases r)
    case (Inr u)
    with c assms show ?thesis by (simp add: troubleshoot_openrazer_def try_except_apply)
  next
    case (Inl ex')
    let ?h = "bnd (stdout [Lit ''Troubleshooting encountered an exception.''] dbg_error (Some 1)) (\<lambda>_.
        bnd (locales_getitem e ''troubleshoot'') (\<lambda>title.
        bnd (locales_getitem e ''troubleshoot_cannot_run'') (\<lambda>reason.
        internal_error title reason ''serious'')))"
    from c Inl have t: "troubleshoot_openrazer e data w = ?h w'"
      by (simp add: troubleshoot_openrazer_def try_except_apply)
    with assms have "fst (?h w') = Inl ex" by simp
    then have "dialogs (snd (?h w')) = dialogs w'"
      by (rule bnd_fails_quiet) (rule quiet, rule shows_dialog [where g = "\<lambda>x. x"])
    with t d show ?thesis by simp
  qed
qed

lemma handler_dialogs:
  assumes "map_of (requests e) request = Some handler"
      and "handler data w = (Inl ex, w')"
  shows "dialogs w' = dialogs w"
proof -
  from assms(1) consider "handler = update_device_list e" | "handler = open_device e"
    | "handler = apply_to_all e" | "handler = set_device_state e" | "handler = debug_matrix e"
    | "handler = open_help e" | "handler = troubleshoot_openrazer e"
    by (auto simp: requests_def split: if_splits)
  then show ?thesis
  proof cases
    case 1 with assms(2) update_device_list_dialogs [of e data w] show ?thesis by simp
  next
    case 2 with assms(2) open_device_dialogs [of e data w] show ?thesis by simp
  next
    case 3 with assms(2) apply_to_all_dialogs [of e data w] show ?thesis by simp
  next
    case 4 with assms(2) set_device_state_dialogs [of e data w ex] show ?thesis by simp
  next
    case 5 with assms(2) debug_matrix_dialogs [of e data w ex] show ?thesis by simp
  next
    case 6 with assms(2) open_help_returns [of e data w] show ?thesis by simp
  next
    case 7 with assms(2) troubleshoot_openrazer_dialogs [of e data w ex] show ?thesis by simp
  qed
qed

section \<open>Requests\<close>

text \<open>
  C1. For a request name that is not a key of \<^verbatim>\<open>requests\<close>, \<^verbatim>\<open>parse_request\<close> calls no backend
  and ends normally, with one dialog for the view. But the dialog is the generic one of the
  \<^verbatim>\<open>except Exception\<close> branch (the generic title and text of the translation table, with
  the trace of the \<^verbatim>\<open>KeyError\<close>), the line on the log is "Failed to execute request: ...",
  and the value returned is \<^verbatim>\<open>None\<close>: the \<^verbatim>\<open>except KeyError\<close> branch, with its line "Unknown
  Request: ..." and its dialog "... is not implemented.", is never taken, since the lookup
  \<^verbatim>\<open>requests[request]\<close> is in the second \<^verbatim>\<open>try\<close>.
\<close>

theorem parse_request_unknown:
  assumes "request \<notin> set (map fst (requests e))"
      and "LOCALES e ''error_generic_title'' = Some title"
      and "LOCALES e ''error_generic_text'' = Some reason"
  shows "parse_request e request data w =
     (Inr PNone, w\<lparr>trace := trace w @
        [Stdout [Lit (''Failed to execute request: '' @ request @ '' with data: ''), StrOf data]
           dbg_error None,
         Stdout [Lit (get_exception_as_string e (KeyError (PStr request)))] dbg_error None,
         Run_js [Lit (open_dialog title
            (replace_newline (reason @ ''<br><br><code>'' @
               get_exception_as_string e (KeyError (PStr request)) @ ''</code>''))
            ''serious'')]]\<rparr>)"
proof -
  from assms(1) have "map_of (requests e) request = None"
    by (simp add: map_of_eq_None_iff)
  then show ?thesis
    by (simp add: parse_request_apply failed_request_apply [OF assms(2,3)])
qed

theorem parse_request_unknown_witness:
  "parse_request (demo_env (PList demo_devices) PNone) ''foo'' (PDict []) demo_world =
     (Inr PNone, \<lparr>trace =
        [Stdout [Lit ''Failed to execute request: foo with data: '', StrOf (PDict [])]
           dbg_error None,
         Stdout [Lit ''KeyError''] dbg_error None,
         Run_js [Lit (open_dialog ''Error''
            ''Something went wrong.<br><br><code>KeyError</code>'' ''serious'')]],
        bstate = 0\<rparr>)"
  using parse_request_unknown [where request = "''foo''"
      and e = "demo_env (PList demo_devices) PNone" and w = demo_world and data = "PDict []"
      and title = "''Error''" and reason = "''Something went wrong.''"]
  by (simp add: demo requests_def replace_newline_def)

lemma replace_newline_code:
  "replace_newline (reason @ ''<br><br><code>'' @ traceback @ ''</code>'') =
     replace_newline reason @ ''<br><br><code>'' @ replace_newline traceback @ ''</code>''"
  by (simp add: replace_newline_def)

text \<open>
  C4, as it is written, fails. The claim says that the generic dialog contains the trace.
  For a trace of two lines, \<^verbatim>\<open>parse_request\<close> catches the \<^verbatim>\<open>KeyError\<close> of \<^verbatim>\<open>_open_device\<close>
  on a payload without uid and gives the view a dialog whose script does not contain the
  trace: \<^verbatim>\<open>_internal_error\<close> has replaced the newline by \<^verbatim>\<open><br>\<close>. The claim speaks of any
  exception raised inside a handler: one that the backend raises inside
  \<^verbatim>\<open>_troubleshoot_openrazer\<close> is caught by the handler itself, and the dialog is the one of
  the troubleshooter, not the generic one.
\<close>

theorem parse_request_catches_counterexample:
  "parse_request demo_traceback_env ''open_device'' (PDict []) demo_world =
     (Inr PNone, \<lparr>trace =
        [Stdout [Lit ''Failed to execute request: open_device with data: '', StrOf (PDict [])]
           dbg_error None,
         Stdout [Lit ''Traceback:\<newline>KeyError''] dbg_error None,
         Run_js [Lit (open_dialog ''Error''
            ''Something went wrong.<br><br><code>Traceback:<br>KeyError</code>'' ''serious'')]],
        bstate = 0\<rparr>) \<and>
   \<not> sublist ''Traceback:\<newline>KeyError''
       (open_dialog ''Error''
          ''Something went wrong.<br><br><code>Traceback:<br>KeyError</code>'' ''serious'') \<and>
   parse_request demo_failing_env ''troubleshoot_openrazer'' (PDict []) demo_world =
     (Inr PNone, \<lparr>trace =
        [Stdout [Lit ''Running troubleshooter for OpenRazer...''] dbg_warning (Some 1),
         Openrazer troubleshoot,
         Stdout [Lit ''Troubleshooting encountered an exception.''] dbg_error (Some 1),
         Run_js [Lit (open_dialog ''Troubleshoot'' ''The troubleshooter could not run.''
                        ''serious'')]],
        bstate = 1\<rparr>)"
proof (intro conjI)
  show "\<not> sublist ''Traceback:\<newline>KeyError''
       (open_dialog ''Error''
          ''Something went wrong.<br><br><code>Traceback:<br>KeyError</code>'' ''serious'')"
    by code_simp
next
  show "parse_request demo_traceback_env ''open_device'' (PDict []) demo_world =
     (Inr PNone, \<lparr>trace =
        [Stdout [Lit ''Failed to execute request: open_device with data: '', StrOf (PDict [])]
           dbg_error None,
         Stdout [Lit ''Traceback:\<newline>KeyError''] dbg_error None,
         Run_js [Lit (open_dialog ''Error''
            ''Something went wrong.<br><br><code>Traceback:<br>KeyError</code>'' ''serious'')]],
        bstate = 0\<rparr>)"
    by (simp add: parse_request_apply requests_def open_device_def failed_request_def run
        demo_traceback_env_def demo replace_newline_def)
next
  show "parse_request demo_failing_env ''troubleshoot_openrazer'' (PDict []) demo_world =
     (Inr PNone, \<lparr>trace =
        [Stdout [Lit ''Running troubleshooter for OpenRazer...''] dbg_warning (Some 1),
         Openrazer troubleshoot,
         Stdout [Lit ''Troubleshooting encountered an exception.''] dbg_error (Some 1),
         Run_js [Lit (open_dialog ''Troubleshoot'' ''The troubleshooter could not run.''
                        ''serious'')]],
        bstate = 1\<rparr>)"
    by (simp add: parse_request_apply requests_def troubleshoot_openrazer_def run
        demo_failing_env_def demo replace_newline_def)
qed

text \<open>
  C4. When an exception leaves a handler of the table (the handler raises it on the
  payload and does not catch it itself), \<^verbatim>\<open>parse_request\<close> catches it and ends normally
  (it returns \<^verbatim>\<open>None\<close>): after what the handler did, it logs the request and the trace,
  and gives the view one dialog of style serious, with the generic title of the
  translation table. The message of the dialog is the generic text, then
  \<^verbatim>\<open><br><br><code>\<close>, the trace and \<^verbatim>\<open></code>\<close>, after \<^verbatim>\<open>_internal_error\<close> has replaced every
  newline by \<^verbatim>\<open><br>\<close>: the message holds the trace exactly when the trace has no newline.
  This is the only dialog of the whole call: the handler that failed gave none. The
  translation table has the two generic keys.
\<close>

theorem parse_request_catches:
  assumes "map_of (requests e) request = Some handler"
      and "handler data w = (Inl ex, w')"
      and "LOCALES e ''error_generic_title'' = Some title"
      and "LOCALES e ''error_generic_text'' = Some reason"
  shows "parse_request e request data w =
     (Inr PNone, w'\<lparr>trace := trace w' @
        [Stdout [Lit (''Failed to execute request: '' @ request @ '' with data: ''), StrOf data]
           dbg_error None,
         Stdout [Lit (get_exception_as_string e ex)] dbg_error None,
         Run_js [Lit (open_dialog title
            (replace_newline reason @ ''<br><br><code>'' @
               replace_newline (get_exception_as_string e ex) @ ''</code>'')
            ''serious'')]]\<rparr>) \<and>
     dialogs (snd (parse_request e request data w)) =
       dialogs w @
         [Run_js [Lit (open_dialog title
            (replace_newline reason @ ''<br><br><code>'' @
               replace_newline (get_exception_as_string e ex) @ ''</code>'')
            ''serious'')]] \<and>
     (CHR 0x0A \<notin> set (get_exception_as_string e ex) \<longrightarrow>
        replace_newline (get_exception_as_string e ex) = get_exception_as_string e ex)"
proof -
  have p: "parse_request e request data w =
     (Inr PNone, w'\<lparr>trace := trace w' @
        [Stdout [Lit (''Failed to execute request: '' @ request @ '' with data: ''), StrOf data]
           dbg_error None,
         Stdout [Lit (get_exception_as_string e ex)] dbg_error None,
         Run_js [Lit (open_dialog title
            (replace_newline reason @ ''<br><br><code>'' @
               replace_newline (get_exception_as_string e ex) @ ''</code>'')
            ''serious'')]]\<rparr>)"
    using assms(1,2)
    by (simp add: parse_request_apply failed_request_apply [OF assms(3,4)]
        replace_newline_code del: append.simps)
  have "dialogs w' = dialogs w"
    using assms(1,2) by (rule handler_dialogs)
  with p show ?thesis
    by (simp add: dialogs_def replace_newline_id)
qed

theorem parse_request_catches_witness:
  "parse_request demo_traceback_env ''open_device'' (PDict []) demo_world =
     (Inr PNone, \<lparr>trace =
        [Stdout [Lit ''Failed to execute request: open_device with data: '', StrOf (PDict [])]
           dbg_error None,
         Stdout [Lit ''Traceback:\<newline>KeyError''] dbg_error None,
         Run_js [Lit (open_dialog ''Error''
            ''Something went wrong.<br><br><code>Traceback:<br>KeyError</code>'' ''serious'')]],
        bstate = 0\<rparr>) \<and>
   dialogs (snd (parse_request demo_traceback_env ''open_device'' (PDict []) demo_world)) =
     [Run_js [Lit (open_dialog ''Error''
        ''Something went wrong.<br><br><code>Traceback:<br>KeyError</code>'' ''serious'')]] \<and>
   parse_request (demo_env (PList demo_devices) PNone) ''open_device'' (PDict []) demo_world =
     (Inr PNone, \<lparr>trace =
        [Stdout [Lit ''Failed to execute request: open_device with data: '', StrOf (PDict [])]
           dbg_error None,
         Stdout [Lit ''KeyError''] dbg_error None,
         Run_js [Lit (open_dialog ''Error''
            ''Something went wrong.<br><br><code>KeyError</code>'' ''serious'')]],
        bstate = 0\<rparr>) \<and>
   replace_newline ''KeyError'' = ''KeyError''"
  using parse_request_catches [where request = "''open_device''"
      and e = demo_traceback_env and w = demo_world and w' = demo_world
      and data = "PDict []" and ex = "KeyError (PStr ''uid'')"
      and handler = "open_device demo_traceback_env"
      and title = "''Error''" and reason = "''Something went wrong.''"]
    parse_request_catches [where request = "''open_device''"
      and e = "demo_env (PList demo_devices) PNone" and w = demo_world and w' = demo_world
      and data = "PDict []" and ex = "KeyError (PStr ''uid'')"
      and handler = "open_device (demo_env (PList demo_devices) PNone)"
      and title = "''Error''" and reason = "''Something went wrong.''"]
  by (simp add: demo demo_traceback_env_def requests_def replace_newline_def open_device_def
      run dialogs_def)

section \<open>Opening a device\<close>

text \<open>
  C2. \<^verbatim>\<open>_open_device\<close> gives the view \<^verbatim>\<open>open_device_overview\<close> (with the default data of
  \<^verbatim>\<open>run_function\<close>, the empty dict) when the backend's \<^verbatim>\<open>get_device\<close> returns \<^verbatim>\<open>None\<close>, and
  \<^verbatim>\<open>_open_device\<close> with the answer for every other answer. An answer that is a string is
  one of these: the handler gives the view \<^verbatim>\<open>_open_device\<close> with the string and never
  \<^verbatim>\<open>_open_device_error\<close>, since \<^verbatim>\<open>data == str\<close> compares the answer with the class.
\<close>

theorem open_device_answer:
  assumes "py_getitem data (PStr ''uid'') = Inr uid"
      and "openrazer e (get_device uid) (bstate w) = (Inr answer, after)"
  shows "open_device e data w =
     (Inr (), w\<lparr>trace := trace w @
        [Openrazer (get_device uid),
         (if answer = PNone
          then Run_js [StrOf (PStr ''open_device_overview''), Lit ''('', JsonOf (PDict []), Lit '');'']
          else Run_js [StrOf (PStr ''_open_device''), Lit ''('', JsonOf answer, Lit '');''])],
        bstate := after\<rparr>)"
  using assms by (simp add: open_device_def run eq_None_def eq_str_class_def)

theorem open_device_answer_witness:
  "open_device (demo_env (PList demo_devices) (PStr ''daemon error'')) (PDict [(''uid'', PInt 0)])
     demo_world =
     (Inr (), \<lparr>trace =
        [Openrazer (get_device (PInt 0)),
         Run_js [StrOf (PStr ''_open_device''), Lit ''('', JsonOf (PStr ''daemon error''), Lit '');'']],
        bstate = 1\<rparr>)"
  using open_device_answer [where data = "PDict [(''uid'', PInt 0)]"
      and e = "demo_env (PList demo_devices) (PStr ''daemon error'')" and w = demo_world
      and uid = "PInt 0" and answer = "PStr ''daemon error''" and after = 1]
  by (simp add: demo)

section \<open>The matrix test\<close>

text \<open>
  C3. When the backend's \<^verbatim>\<open>debug_matrix\<close> returns \<^verbatim>\<open>False\<close>, \<^verbatim>\<open>_debug_matrix\<close> does
  nothing after the call of the backend: no dialog ("bad request" or other) and no line on
  the log. The handler has no branch for \<^verbatim>\<open>False\<close>, which \<^verbatim>\<open>_set_device_state\<close> has.
\<close>

theorem debug_matrix_false:
  assumes "py_getitem data (PStr ''uid'') = Inr uid_raw"
      and "py_int e uid_raw = Inr uid"
      and "py_getitem data (PStr ''backend'') = Inr backend_name"
      and "py_getitem data (PStr ''position'') = Inr position"
      and "py_getitem position (PInt 0) = Inr row"
      and "py_getitem position (PInt 1) = Inr column"
      and "py_int e row = Inr r"
      and "py_int e column = Inr c"
      and "openrazer e (debug_matrix_call (PInt uid) (PInt r) (PInt c)) (bstate w) =
             (Inr (PBool False), after)"
  shows "debug_matrix e data w =
     (Inr (), w\<lparr>trace := trace w @ [Openrazer (debug_matrix_call (PInt uid) (PInt r) (PInt c))],
                bstate := after\<rparr>)"
  using assms by (simp add: debug_matrix_def debug_matrix_result_def run eq_None_def)

theorem debug_matrix_false_witness:
  "debug_matrix (demo_env (PList demo_devices) (PBool False)) demo_matrix_request demo_world =
     (Inr (), \<lparr>trace = [Openrazer (debug_matrix_call (PInt 0) (PInt 2) (PInt 3))],
               bstate = 1\<rparr>)"
  using debug_matrix_false [where data = demo_matrix_request
      and e = "demo_env (PList demo_devices) (PBool False)" and w = demo_world
      and uid_raw = "PStr ''0''" and uid = 0 and backend_name = "PStr ''openrazer''"
      and position = "PList [PInt 2, PInt 3]" and row = "PInt 2" and column = "PInt 3"
      and r = 2 and c = 3 and after = 1]
  by (simp add: demo seq_getitem_def)

section \<open>Applying a state to all devices\<close>

lemma for_each_trace:
  assumes "\<And>x w. x \<in> set xs \<Longrightarrow>
             fst (body x w) = Inr () \<and> trace (snd (body x w)) = trace w @ evs x"
  shows "fst (for_each body xs w) = Inr () \<and>
         trace (snd (for_each body xs w)) = trace w @ concat (map evs xs)"
  using assms
proof (induction xs arbitrary: w)
  case Nil
  then show ?case by (simp add: ret_apply)
next
  case (Cons x xs)
  obtain r w' where b: "body x w = (r, w')" by (cases "body x w")
  from Cons.prems [of x w] b have r: "r = Inr ()" and t: "trace w' = trace w @ evs x"
    by simp_all
  have "fst (for_each body xs w') = Inr () \<and>
        trace (snd (for_each body xs w')) = trace w' @ concat (map evs xs)"
    by (rule Cons.IH) (simp add: Cons.prems)
  with b r t show ?case by (simp add: bnd_apply)
qed

lemma for_each_skip:
  assumes "\<And>x w. x \<in> set xs \<Longrightarrow> body x w = (Inr (), w)"
  shows "for_each body xs w = (Inr (), w)"
  using assms by (induction xs arbitrary: w) (simp_all add: ret_apply bnd_apply)

lemma device_ok_fields:
  assumes "device_ok d"
  obtains a zones zs u where "py_getitem d (PStr ''available'') = Inr a"
    and "py_getitem d (PStr ''zones'') = Inr zones" and "py_iter zones = Inr zs"
    and "py_getitem d (PStr ''uid'') = Inr u"
  using assms by (auto simp: device_ok_def split: sum.splits)

lemma visited_zones_Cons:
  "visited_zones (d # ds) =
     (if device_available d then map (\<lambda>z. (device_uid d, z)) (device_zones d) else []) @
     visited_zones ds"
  by (simp add: visited_zones_def)

lemma zone_brightness:
  assumes "py_getitem d (PStr ''uid'') = Inr u"
      and "\<And>u r z c p s. \<not> isl (fst (openrazer e (set_device_state_call u r z c p) s))"
  shows "fst (apply_to_zone e (PStr ''brightness'') v d z w) = Inr () \<and>
         trace (snd (apply_to_zone e (PStr ''brightness'') v d z w)) =
           trace w @ [Openrazer (set_device_state_call u (PStr ''brightness'') z PNone (PList [v]))]"
proof -
  let ?c = "set_device_state_call u (PStr ''brightness'') z PNone (PList [v])"
  obtain r where "fst (openrazer e ?c (bstate w)) = Inr r"
    using assms(2) [of u "PStr ''brightness''" z PNone "PList [v]" "bstate w"]
    by (cases "fst (openrazer e ?c (bstate w))") simp_all
  with assms(1) show ?thesis
    by (simp add: apply_to_zone_def eq_str_def run)
qed

lemma zone_effect:
  assumes "py_getitem d (PStr ''uid'') = Inr u"
      and "map_of effect_params name = Some param"
      and "\<And>u r z c p s. \<not> isl (fst (openrazer e (set_device_state_call u r z c p) s))"
  shows "fst (apply_to_zone e (PStr ''effect'') (PStr name) d z w) = Inr () \<and>
         trace (snd (apply_to_zone e (PStr ''effect'') (PStr name) d z w)) =
           trace w @ [Openrazer (set_device_state_call u (PStr name) z PNone (PList [param]))]"
proof -
  let ?c = "set_device_state_call u (PStr name) z PNone (PList [param])"
  obtain r where "fst (openrazer e ?c (bstate w)) = Inr r"
    using assms(3) [of u "PStr name" z PNone "PList [param]" "bstate w"]
    by (cases "fst (openrazer e ?c (bstate w))") simp_all
  with assms(1,2) show ?thesis
    by (simp add: apply_to_zone_def eq_str_def run)
qed

lemma apply_to_device_trace:
  assumes ok: "device_ok d"
    and zone: "\<And>u z w. py_getitem d (PStr ''uid'') = Inr u \<Longrightarrow>
        fst (apply_to_zone e rt rv d z w) = Inr () \<and>
        trace (snd (apply_to_zone e rt rv d z w)) = trace w @ [Openrazer (call u z)]"
  shows "fst (apply_to_device e rt rv d w) = Inr () \<and>
         trace (snd (apply_to_device e rt rv d w)) =
           trace w @ (if device_available d
                      then map (\<lambda>z. Openrazer (call (device_uid d) z)) (device_zones d) else [])"
proof -
  from ok obtain a zones zs u where f: "py_getitem d (PStr ''available'') = Inr a"
    "py_getitem d (PStr ''zones'') = Inr zones" "py_iter zones = Inr zs"
    "py_getitem d (PStr ''uid'') = Inr u"
    by (rule device_ok_fields)
  have loop: "fst (for_each (apply_to_zone e rt rv d) zs w) = Inr () \<and>
        trace (snd (for_each (apply_to_zone e rt rv d) zs w)) =
          trace w @ concat (map (\<lambda>z. [Openrazer (call u z)]) zs)"
    by (rule for_each_trace) (simp add: zone [OF f(4)])
  have c: "concat (map (\<lambda>z. [Openrazer (call u z)]) zs) = map (\<lambda>z. Openrazer (call u z)) zs"
    by (induction zs) simp_all
  from f loop show ?thesis
    by (simp add: apply_to_device_def run device_available_def device_zones_def device_uid_def c)
qed

lemma concat_visited:
  "concat (map (\<lambda>d. if device_available d
                     then map (\<lambda>z. Openrazer (call (device_uid d) z)) (device_zones d) else []) ds)
   = map (\<lambda>(u, z). Openrazer (call u z)) (visited_zones ds)"
  by (induction ds) (simp_all add: visited_zones_def comp_def)

lemma apply_to_all_trace:
  assumes "py_getitem data (PStr ''type'') = Inr rt"
      and "py_getitem data (PStr ''value'') = Inr rv"
      and "fst (openrazer e get_device_list (bstate w)) = Inr devices"
      and "py_iter devices = Inr ds"
      and ok: "list_all device_ok ds"
      and zone: "\<And>d u z w. d \<in> set ds \<Longrightarrow> py_getitem d (PStr ''uid'') = Inr u \<Longrightarrow>
        fst (apply_to_zone e rt rv d z w) = Inr () \<and>
        trace (snd (apply_to_zone e rt rv d z w)) = trace w @ [Openrazer (call u z)]"
  shows "fst (apply_to_all e data w) = Inr () \<and>
         trace (snd (apply_to_all e data w)) =
           trace w @ Openrazer get_device_list #
             map (\<lambda>(u, z). Openrazer (call u z)) (visited_zones ds)"
proof -
  let ?w = "w\<lparr>trace := trace w @ [Openrazer get_device_list],
               bstate := snd (openrazer e get_device_list (bstate w))\<rparr>"
  have "fst (for_each (apply_to_device e rt rv) ds ?w) = Inr () \<and>
        trace (snd (for_each (apply_to_device e rt rv) ds ?w)) =
          trace ?w @ concat (map (\<lambda>d. if device_available d
                     then map (\<lambda>z. Openrazer (call (device_uid d) z)) (device_zones d) else []) ds)"
  proof (rule for_each_trace)
    fix d w' assume d: "d \<in> set ds"
    with ok have "device_ok d" by (simp add: list_all_iff)
    then show "fst (apply_to_device e rt rv d w') = Inr () \<and>
         trace (snd (apply_to_device e rt rv d w')) =
           trace w' @ (if device_available d
                      then map (\<lambda>z. Openrazer (call (device_uid d) z)) (device_zones d) else [])"
      by (rule apply_to_device_trace) (rule zone [OF d])
  qed
  with assms(1-4) show ?thesis
    by (simp add: apply_to_all_def run concat_visited)
qed

lemma zone_unknown:
  assumes "map_of effect_params name = None"
  shows "apply_to_zone e (PStr ''effect'') (PStr name) d z w = (Inl (KeyError (PStr name)), w)"
  using assms by (simp add: apply_to_zone_def eq_str_def run)

lemma device_unknown:
  assumes "device_ok d" and "map_of effect_params name = None"
  shows "apply_to_device e (PStr ''effect'') (PStr name) d w =
     ((if device_available d \<and> device_zones d \<noteq> [] then Inl (KeyError (PStr name)) else Inr ()), w)"
proof -
  from assms(1) obtain a zones zs u where f: "py_getitem d (PStr ''available'') = Inr a"
    "py_getitem d (PStr ''zones'') = Inr zones" "py_iter zones = Inr zs"
    "py_getitem d (PStr ''uid'') = Inr u"
    by (rule device_ok_fields)
  have "for_each (apply_to_zone e (PStr ''effect'') (PStr name) d) zs w =
          ((if zs \<noteq> [] then Inl (KeyError (PStr name)) else Inr ()), w)"
    by (cases zs) (simp_all add: ret_apply bnd_apply zone_unknown [OF assms(2)])
  with f show ?thesis
    by (simp add: apply_to_device_def run device_available_def device_zones_def)
qed

lemma all_unknown:
  assumes "list_all device_ok ds" and "map_of effect_params name = None"
  shows "for_each (apply_to_device e (PStr ''effect'') (PStr name)) ds w =
     ((if visited_zones ds \<noteq> [] then Inl (KeyError (PStr name)) else Inr ()), w)"
  using assms(1)
proof (induction ds)
  case Nil
  then show ?case by (simp add: ret_apply visited_zones_def)
next
  case (Cons d ds)
  then show ?case
    by (simp add: bnd_apply device_unknown [OF _ assms(2)] visited_zones_Cons)
qed

lemma zone_other:
  assumes "rt \<notin> {PStr ''effect'', PStr ''brightness'', PStr ''colour''}"
  shows "apply_to_zone e rt rv d z w = (Inr (), w)"
  using assms by (simp add: apply_to_zone_def eq_str_def ret_apply)

lemma device_other:
  assumes "device_ok d" and "rt \<notin> {PStr ''effect'', PStr ''brightness'', PStr ''colour''}"
  shows "apply_to_device e rt rv d w = (Inr (), w)"
proof -
  from assms(1) obtain a zones zs u where f: "py_getitem d (PStr ''available'') = Inr a"
    "py_getitem d (PStr ''zones'') = Inr zones" "py_iter zones = Inr zs"
    "py_getitem d (PStr ''uid'') = Inr u"
    by (rule device_ok_fields)
  have "for_each (apply_to_zone e rt rv d) zs w = (Inr (), w)"
    by (rule for_each_skip) (rule zone_other [OF assms(2)])
  with f show ?thesis
    by (simp add: apply_to_device_def run)
qed

lemma effect_params_map:
  "map_of effect_params =
     [''spectrum'' \<mapsto> PNone, ''wave'' \<mapsto> PInt 1, ''reactive'' \<mapsto> PInt 2,
      ''breath_single'' \<mapsto> PNone, ''static'' \<mapsto> PNone]"
  by (rule ext) (simp add: effect_params_def)

text \<open>
  C5. For a payload of type "brightness" \<^verbatim>\<open>_apply_to_all\<close> ends normally and the calls of
  the backend are: \<^verbatim>\<open>get_device_list\<close>, then one \<^verbatim>\<open>set_device_state\<close> for every zone of
  every device of the list that the loop does not skip, in order, each with the uid of the
  device, the request "brightness", the zone, no colour and the one-element list of the
  payload's value (for the value 50: \<^verbatim>\<open>[50]\<close>). A device whose flag \<^verbatim>\<open>available\<close> equals
  \<^verbatim>\<open>False\<close> is skipped and gets no call; a device whose flag is \<^verbatim>\<open>True\<close> is not. The devices
  of the list have the three fields, and the state-mutation call of the backend does not
  raise.
\<close>

theorem apply_to_all_brightness:
  assumes "py_getitem data (PStr ''type'') = Inr (PStr ''brightness'')"
      and "py_getitem data (PStr ''value'') = Inr v"
      and "fst (openrazer e get_device_list (bstate w)) = Inr devices"
      and "py_iter devices = Inr ds"
      and "list_all device_ok ds"
      and "\<And>u r z c p s. \<not> isl (fst (openrazer e (set_device_state_call u r z c p) s))"
  shows "fst (apply_to_all e data w) = Inr () \<and>
         trace (snd (apply_to_all e data w)) =
           trace w @ Openrazer get_device_list #
             map (\<lambda>(u, z). Openrazer (set_device_state_call u (PStr ''brightness'') z PNone
                                        (PList [v])))
               (visited_zones ds)"
  using assms(1-5)
  by (rule apply_to_all_trace) (rule zone_brightness, assumption, rule assms(6))

theorem apply_to_all_brightness_witness:
  "fst (apply_to_all (demo_env (PList demo_devices) (PBool True))
          (PDict [(''type'', PStr ''brightness''), (''value'', PInt 50)]) demo_world) = Inr () \<and>
   trace (snd (apply_to_all (demo_env (PList demo_devices) (PBool True))
          (PDict [(''type'', PStr ''brightness''), (''value'', PInt 50)]) demo_world)) =
     [Openrazer get_device_list,
      Openrazer (set_device_state_call (PInt 0) (PStr ''brightness'') (PStr ''logo'') PNone
                   (PList [PInt 50])),
      Openrazer (set_device_state_call (PInt 0) (PStr ''brightness'') (PStr ''scroll'') PNone
                   (PList [PInt 50]))]"
  using apply_to_all_brightness [where e = "demo_env (PList demo_devices) (PBool True)"
      and data = "PDict [(''type'', PStr ''brightness''), (''value'', PInt 50)]"
      and w = demo_world and v = "PInt 50" and devices = "PList demo_devices"
      and ds = demo_devices]
  by (simp add: demo device_ok_def visited_zones_def device_available_def device_zones_def
      device_uid_def)

text \<open>
  C6, as it is written, fails. The claim says that an effect name outside the table is a
  lookup failure that leaves the handler and is caught by the router. The lookup is in the
  body of the inner loop: with an empty device list the name "rainbow", which is not in the
  table, is never looked up, the handler ends normally and the router gives the view no
  dialog.
\<close>

theorem apply_to_all_effect_counterexample:
  "map_of effect_params ''rainbow'' = None \<and>
   apply_to_all (demo_env (PList []) (PBool True))
     (PDict [(''type'', PStr ''effect''), (''value'', PStr ''rainbow'')]) demo_world =
     (Inr (), \<lparr>trace = [Openrazer get_device_list], bstate = 1\<rparr>) \<and>
   parse_request (demo_env (PList []) (PBool True)) ''apply_to_all''
     (PDict [(''type'', PStr ''effect''), (''value'', PStr ''rainbow'')]) demo_world =
     (Inr PNone, \<lparr>trace = [Openrazer get_device_list], bstate = 1\<rparr>)"
  by (simp add: parse_request_apply apply_to_all_in_requests apply_to_all_def run demo
      effect_params_def)

text \<open>
  C6. The table of default parameters is spectrum: none, wave: 1, reactive: 2,
  breath_single: none, static: none. For a payload of type "effect" whose value is a name of
  the table, \<^verbatim>\<open>_apply_to_all\<close> ends normally and calls \<^verbatim>\<open>set_device_state\<close> once for every
  zone of every device it does not skip, with the name, the zone, no colour and the
  one-element list of the name's parameter (\<^verbatim>\<open>[1]\<close> for "wave", \<^verbatim>\<open>[None]\<close> for "spectrum").
  For a name outside the table: when there is a zone to visit, the lookup at the first one
  raises \<^verbatim>\<open>KeyError\<close> before any state-mutation call, the exception leaves the handler and
  \<^verbatim>\<open>parse_request\<close> catches it (it returns \<^verbatim>\<open>None\<close> after the generic dialog); when there
  is no zone to visit, nothing is looked up and the handler ends normally.
\<close>

theorem apply_to_all_effect:
  assumes "py_getitem data (PStr ''type'') = Inr (PStr ''effect'')"
      and "py_getitem data (PStr ''value'') = Inr (PStr name)"
      and "openrazer e get_device_list (bstate w) = (Inr devices, after)"
      and "py_iter devices = Inr ds"
      and "list_all device_ok ds"
      and "\<And>u r z c p s. \<not> isl (fst (openrazer e (set_device_state_call u r z c p) s))"
      and "LOCALES e ''error_generic_title'' = Some title"
      and "LOCALES e ''error_generic_text'' = Some reason"
  shows "map_of effect_params =
           [''spectrum'' \<mapsto> PNone, ''wave'' \<mapsto> PInt 1, ''reactive'' \<mapsto> PInt 2,
            ''breath_single'' \<mapsto> PNone, ''static'' \<mapsto> PNone] \<and>
         (\<forall>param. map_of effect_params name = Some param \<longrightarrow>
            fst (apply_to_all e data w) = Inr () \<and>
            trace (snd (apply_to_all e data w)) =
              trace w @ Openrazer get_device_list #
                map (\<lambda>(u, z). Openrazer (set_device_state_call u (PStr name) z PNone
                                           (PList [param])))
                  (visited_zones ds)) \<and>
         (map_of effect_params name = None \<and> visited_zones ds \<noteq> [] \<longrightarrow>
            apply_to_all e data w =
              (Inl (KeyError (PStr name)),
               w\<lparr>trace := trace w @ [Openrazer get_device_list], bstate := after\<rparr>) \<and>
            parse_request e ''apply_to_all'' data w =
              (Inr PNone, w\<lparr>trace := trace w @
                 [Openrazer get_device_list,
                  Stdout [Lit (''Failed to execute request: apply_to_all with data: ''), StrOf data]
                    dbg_error None,
                  Stdout [Lit (get_exception_as_string e (KeyError (PStr name)))] dbg_error None,
                  Run_js [Lit (open_dialog title
                     (replace_newline (reason @ ''<br><br><code>'' @
                        get_exception_as_string e (KeyError (PStr name)) @ ''</code>''))
                     ''serious'')]],
                 bstate := after\<rparr>)) \<and>
         (map_of effect_params name = None \<and> visited_zones ds = [] \<longrightarrow>
            apply_to_all e data w =
              (Inr (), w\<lparr>trace := trace w @ [Openrazer get_device_list], bstate := after\<rparr>))"
proof (intro conjI allI impI)
  show "map_of effect_params =
           [''spectrum'' \<mapsto> PNone, ''wave'' \<mapsto> PInt 1, ''reactive'' \<mapsto> PInt 2,
            ''breath_single'' \<mapsto> PNone, ''static'' \<mapsto> PNone]"
    by (rule effect_params_map)
next
  fix param assume p: "map_of effect_params name = Some param"
  from assms(3) have d: "fst (openrazer e get_device_list (bstate w)) = Inr devices" by simp
  have "fst (apply_to_all e data w) = Inr () \<and>
        trace (snd (apply_to_all e data w)) =
              trace w @ Openrazer get_device_list #
                map (\<lambda>(u, z). Openrazer (set_device_state_call u (PStr name) z PNone
                                           (PList [param])))
                  (visited_zones ds)"
    using assms(1,2) d assms(4,5)
    by (rule apply_to_all_trace) (rule zone_effect, assumption, rule p, rule assms(6))
  then show "fst (apply_to_all e data w) = Inr ()"
    and "trace (snd (apply_to_all e data w)) =
              trace w @ Openrazer get_device_list #
                map (\<lambda>(u, z). Openrazer (set_device_state_call u (PStr name) z PNone
                                           (PList [param])))
                  (visited_zones ds)"
    by simp_all
next
  assume u: "map_of effect_params name = None \<and> visited_zones ds \<noteq> []"
  with assms(1-5) show a: "apply_to_all e data w =
              (Inl (KeyError (PStr name)),
               w\<lparr>trace := trace w @ [Openrazer get_device_list], bstate := after\<rparr>)"
    by (simp add: apply_to_all_def run all_unknown)
  show "parse_request e ''apply_to_all'' data w =
              (Inr PNone, w\<lparr>trace := trace w @
                 [Openrazer get_device_list,
                  Stdout [Lit (''Failed to execute request: apply_to_all with data: ''), StrOf data]
                    dbg_error None,
                  Stdout [Lit (get_exception_as_string e (KeyError (PStr name)))] dbg_error None,
                  Run_js [Lit (open_dialog title
                     (replace_newline (reason @ ''<br><br><code>'' @
                        get_exception_as_string e (KeyError (PStr name)) @ ''</code>''))
                     ''serious'')]],
                 bstate := after\<rparr>)"
    by (simp add: parse_request_apply apply_to_all_in_requests a
        failed_request_apply [OF assms(7,8)])
next
  assume "map_of effect_params name = None \<and> visited_zones ds = []"
  with assms(1-5) show "apply_to_all e data w =
              (Inr (), w\<lparr>trace := trace w @ [Openrazer get_device_list], bstate := after\<rparr>)"
    by (simp add: apply_to_all_def run all_unknown)
qed

theorem apply_to_all_effect_witness:
  "trace (snd (apply_to_all (demo_env (PList demo_devices) (PBool True))
          (PDict [(''type'', PStr ''effect''), (''value'', PStr ''wave'')]) demo_world)) =
     [Openrazer get_device_list,
      Openrazer (set_device_state_call (PInt 0) (PStr ''wave'') (PStr ''logo'') PNone
                   (PList [PInt 1])),
      Openrazer (set_device_state_call (PInt 0) (PStr ''wave'') (PStr ''scroll'') PNone
                   (PList [PInt 1]))] \<and>
   trace (snd (apply_to_all (demo_env (PList demo_devices) (PBool True))
          (PDict [(''type'', PStr ''effect''), (''value'', PStr ''spectrum'')]) demo_world)) =
     [Openrazer get_device_list,
      Openrazer (set_device_state_call (PInt 0) (PStr ''spectrum'') (PStr ''logo'') PNone
                   (PList [PNone])),
      Openrazer (set_device_state_call (PInt 0) (PStr ''spectrum'') (PStr ''scroll'') PNone
                   (PList [PNone]))] \<and>
   parse_request (demo_env (PList demo_devices) (PBool True)) ''apply_to_all''
     (PDict [(''type'', PStr ''effect''), (''value'', PStr ''rainbow'')]) demo_world =
     (Inr PNone, \<lparr>trace =
        [Openrazer get_device_list,
         Stdout [Lit ''Failed to execute request: apply_to_all with data: '',
                 StrOf (PDict [(''type'', PStr ''effect''), (''value'', PStr ''rainbow'')])]
           dbg_error None,
         Stdout [Lit ''KeyError''] dbg_error None,
         Run_js [Lit (open_dialog ''Error''
            ''Something went wrong.<br><br><code>KeyError</code>'' ''serious'')]],
        bstate = 1\<rparr>)"
  using apply_to_all_effect [where e = "demo_env (PList demo_devices) (PBool True)"
      and data = "PDict [(''type'', PStr ''effect''), (''value'', PStr ''wave'')]"
      and w = demo_world and name = "''wave''" and devices = "PList demo_devices"
      and ds = demo_devices and after = 1 and title = "''Error''"
      and reason = "''Something went wrong.''"]
    apply_to_all_effect [where e = "demo_env (PList demo_devices) (PBool True)"
      and data = "PDict [(''type'', PStr ''effect''), (''value'', PStr ''spectrum'')]"
      and w = demo_world and name = "''spectrum''" and devices = "PList demo_devices"
      and ds = demo_devices and after = 1 and title = "''Error''"
      and reason = "''Something went wrong.''"]
    apply_to_all_effect [where e = "demo_env (PList demo_devices) (PBool True)"
      and data = "PDict [(''type'', PStr ''effect''), (''value'', PStr ''rainbow'')]"
      and w = demo_world and name = "''rainbow''" and devices = "PList demo_devices"
      and ds = demo_devices and after = 1 and title = "''Error''"
      and reason = "''Something went wrong.''"]
  by (simp add: demo device_ok_def visited_zones_def device_available_def device_zones_def
      device_uid_def effect_params_def replace_newline_def)

text \<open>
  C9. For a payload whose type is none of "effect", "brightness" and "colour",
  \<^verbatim>\<open>_apply_to_all\<close> fetches the device list, visits it, and does nothing else, whatever the
  payload's value: no state-mutation or colour call, no line on the log, no script for the
  view; it ends normally, and so does \<^verbatim>\<open>parse_request\<close>, without a dialog. The devices of
  the list have the fields the loops read.
\<close>

theorem apply_to_all_other_type:
  assumes "py_getitem data (PStr ''type'') = Inr rt"
      and "rt \<notin> {PStr ''effect'', PStr ''brightness'', PStr ''colour''}"
      and "py_getitem data (PStr ''value'') = Inr rv"
      and "openrazer e get_device_list (bstate w) = (Inr devices, after)"
      and "py_iter devices = Inr ds"
      and "list_all device_ok ds"
  shows "apply_to_all e data w =
           (Inr (), w\<lparr>trace := trace w @ [Openrazer get_device_list], bstate := after\<rparr>) \<and>
         parse_request e ''apply_to_all'' data w =
           (Inr PNone, w\<lparr>trace := trace w @ [Openrazer get_device_list], bstate := after\<rparr>)"
proof -
  have "for_each (apply_to_device e rt rv) ds w' = (Inr (), w')" for w'
    by (rule for_each_skip) (use assms(2,6) in \<open>simp add: device_other list_all_iff\<close>)
  with assms(1,3,4,5) have "apply_to_all e data w =
           (Inr (), w\<lparr>trace := trace w @ [Openrazer get_device_list], bstate := after\<rparr>)"
    by (simp add: apply_to_all_def run)
  then show ?thesis
    by (simp add: parse_request_apply apply_to_all_in_requests)
qed

theorem apply_to_all_other_type_witness:
  "apply_to_all (demo_env (PList demo_devices) (PBool True))
     (PDict [(''type'', PStr ''dpi''), (''value'', PInt 800)]) demo_world =
     (Inr (), \<lparr>trace = [Openrazer get_device_list], bstate = 1\<rparr>) \<and>
   parse_request (demo_env (PList demo_devices) (PBool True)) ''apply_to_all''
     (PDict [(''type'', PStr ''dpi''), (''value'', PInt 800)]) demo_world =
     (Inr PNone, \<lparr>trace = [Openrazer get_device_list], bstate = 1\<rparr>)"
  using apply_to_all_other_type [where e = "demo_env (PList demo_devices) (PBool True)"
      and data = "PDict [(''type'', PStr ''dpi''), (''value'', PInt 800)]"
      and w = demo_world and rt = "PStr ''dpi''" and rv = "PInt 800"
      and devices = "PList demo_devices" and ds = demo_devices and after = 1]
  by (simp add: demo device_ok_def)

end
